theory Spec2Isabelle
  imports Complex_Main "HOL-Library.Monad_Syntax"
begin

text \<open>
  The settings store and the gallery resolver of the salon site: \<^verbatim>\<open>buildGalleryImageList\<close>,
  \<^verbatim>\<open>mergeSettings\<close> and \<^verbatim>\<open>loadFromLocalStorage\<close> of \<^verbatim>\<open>src/firebase.ts\<close> (the settings module),
  and \<^verbatim>\<open>normalizeFeaturedUrl\<close> and the list of the \<^verbatim>\<open>Specials\<close> section of
  \<^verbatim>\<open>src/unnamed/part_000\<close> (the page components). The functions over a value of the type
  \<^verbatim>\<open>SiteSettings\<close> are modelled over records; the merge, whose input has any shape, is
  modelled over untyped values with identities.
\<close>

section \<open>Values of the program\<close>

subsection \<open>Numbers\<close>

text \<open>
  A TypeScript \<^verbatim>\<open>number\<close> is a binary64 floating-point number: \<^verbatim>\<open>NaN\<close>, one of the two
  infinities, or a finite value, which is a rational. \<open>Fin q\<close> stands for the finite number
  of value \<open>q\<close>; the two zeros are one value \<open>Fin 0\<close>, which no operation of this program
  tells apart (\<^verbatim>\<open>-0 || 1\<close> is \<open>1\<close>, \<^verbatim>\<open>-0\<close> prints as \<^verbatim>\<open>0\<close>, and a \<^verbatim>\<open>Set\<close> holds them as one
  member). The operations are defined on every rational and give the engine's result on
  the rationals that are binary64 values.
\<close>

datatype jsnum = NaN | PosInfinity | NegInfinity | Fin rat

text \<open>
  Rounding a rational to the nearest binary64 value, ties to the even significand.
  \<open>bitLength n\<close> is the number of binary digits of \<open>n\<close>, \<open>binade q\<close> the exponent \<open>e\<close> with
  \<open>2^e \<le> q < 2^(e+1)\<close> for a positive \<open>q\<close>. A value has 53 significant bits; below the exponent
  \<open>-1022\<close> the spacing stays \<open>2^-1074\<close>, and a result of magnitude \<open>2^1024\<close> or more is an
  infinity.
\<close>

function bitLength :: "int \<Rightarrow> int" where
  "bitLength n = (if n \<le> 0 then 0 else 1 + bitLength (n div 2))"
  by pat_completeness auto

termination bitLength
  by (relation "measure nat") auto

declare bitLength.simps [simp del]

definition binade :: "rat \<Rightarrow> int" where
  "binade q =
     (if 1 \<le> q then bitLength \<lfloor>q\<rfloor> - 1 else - bitLength (\<lceil>1 / q\<rceil> - 1))"

definition pow2 :: "int \<Rightarrow> rat" where
  "pow2 k = (if 0 \<le> k then 2 ^ nat k else 1 / 2 ^ nat (- k))"

definition roundHalfEven :: "rat \<Rightarrow> int" where
  "roundHalfEven x =
     (let f = \<lfloor>x\<rfloor>; d = x - of_int f
      in if d < 1 / 2 then f else if 1 / 2 < d then f + 1 else if even f then f else f + 1)"

definition round64 :: "rat \<Rightarrow> jsnum" where
  "round64 q =
     (if q = 0 then Fin 0
      else
        let e = max (binade \<bar>q\<bar>) (- 1022);
            m = roundHalfEven (\<bar>q\<bar> / pow2 (e - 52))
        in if 1024 \<le> e \<or> (e = 1023 \<and> m = 2 ^ 53)
           then (if 0 < q then PosInfinity else NegInfinity)
           else Fin ((if 0 < q then 1 else - 1) * of_int m * pow2 (e - 52)))"

text \<open>\<^verbatim>\<open>a || b\<close> on numbers: \<^verbatim>\<open>0\<close> and \<^verbatim>\<open>NaN\<close> are the falsy numbers.\<close>

definition orNumber :: "jsnum \<Rightarrow> jsnum \<Rightarrow> jsnum" where
  "orNumber a b = (if a = NaN \<or> a = Fin 0 then b else a)"

text \<open>\<^verbatim>\<open>Math.floor\<close> keeps \<^verbatim>\<open>NaN\<close> and the infinities.\<close>

definition Math_floor :: "jsnum \<Rightarrow> jsnum" where
  "Math_floor x = (case x of Fin q \<Rightarrow> Fin (of_int \<lfloor>q\<rfloor>) | _ \<Rightarrow> x)"

text \<open>
  \<^verbatim>\<open>a <= b\<close>, \<^verbatim>\<open>a >= b\<close> and \<^verbatim>\<open>a < b\<close>: a comparison with \<^verbatim>\<open>NaN\<close> is false.
\<close>

fun le_js :: "jsnum \<Rightarrow> jsnum \<Rightarrow> bool" where
  "le_js NaN b = False"
| "le_js a NaN = False"
| "le_js NegInfinity b = True"
| "le_js a PosInfinity = True"
| "le_js (Fin p) (Fin q) = (p \<le> q)"
| "le_js PosInfinity b = False"
| "le_js a NegInfinity = False"

definition ge_js :: "jsnum \<Rightarrow> jsnum \<Rightarrow> bool" where
  "ge_js a b = le_js b a"

definition lt_js :: "jsnum \<Rightarrow> jsnum \<Rightarrow> bool" where
  "lt_js a b = (le_js a b \<and> a \<noteq> b)"

text \<open>\<^verbatim>\<open>Math.max(a, b)\<close>: \<^verbatim>\<open>NaN\<close> when an argument is \<^verbatim>\<open>NaN\<close>, the larger argument otherwise.\<close>

definition Math_max :: "jsnum \<Rightarrow> jsnum \<Rightarrow> jsnum" where
  "Math_max a b = (if a = NaN \<or> b = NaN then NaN else if le_js a b then b else a)"

text \<open>
  \<^verbatim>\<open>a + b\<close> and \<^verbatim>\<open>a - b\<close>: the exact sum of two finite numbers, rounded; the sum of the two
  opposite infinities is \<^verbatim>\<open>NaN\<close>.
\<close>

fun plus_js :: "jsnum \<Rightarrow> jsnum \<Rightarrow> jsnum" where
  "plus_js NaN b = NaN"
| "plus_js a NaN = NaN"
| "plus_js (Fin p) (Fin q) = round64 (p + q)"
| "plus_js PosInfinity NegInfinity = NaN"
| "plus_js NegInfinity PosInfinity = NaN"
| "plus_js PosInfinity b = PosInfinity"
| "plus_js NegInfinity b = NegInfinity"
| "plus_js (Fin p) b = b"

definition negate :: "jsnum \<Rightarrow> jsnum" where
  "negate x =
     (case x of NaN \<Rightarrow> NaN | PosInfinity \<Rightarrow> NegInfinity | NegInfinity \<Rightarrow> PosInfinity
      | Fin q \<Rightarrow> Fin (- q))"

definition minus_js :: "jsnum \<Rightarrow> jsnum \<Rightarrow> jsnum" where
  "minus_js a b = plus_js a (negate b)"

definition Number_isFinite :: "jsnum \<Rightarrow> bool" where
  "Number_isFinite x = (case x of Fin q \<Rightarrow> True | _ \<Rightarrow> False)"

text \<open>
  The length an array-like object \<^verbatim>\<open>{ length: x }\<close> has for \<^verbatim>\<open>Array.from\<close>:
  \<^verbatim>\<open>NaN\<close> and the numbers below \<open>1\<close> count as \<open>0\<close>, a fraction is cut off, and the length is at
  most \<open>2^53 - 1\<close>.
\<close>

definition toLength :: "jsnum \<Rightarrow> int" where
  "toLength x =
     (case x of NaN \<Rightarrow> 0 | NegInfinity \<Rightarrow> 0 | PosInfinity \<Rightarrow> 2 ^ 53 - 1
      | Fin q \<Rightarrow> min (max 0 \<lfloor>q\<rfloor>) (2 ^ 53 - 1))"

text \<open>
  \<^verbatim>\<open>Array.from({ length: x }, (_, i) => f(i))\<close>. The array is created with its length; an
  array has at most \<open>2^32 - 1\<close> elements, and \<open>None\<close> is the \<^verbatim>\<open>RangeError\<close> that a longer one
  throws. The memory an array takes is not modelled.
\<close>

definition Array_from_length :: "jsnum \<Rightarrow> (jsnum \<Rightarrow> 'a) \<Rightarrow> 'a list option" where
  "Array_from_length x f =
     (if 2 ^ 32 - 1 < toLength x then None
      else Some (map (\<lambda>i. f (Fin (of_nat i))) [0..<nat (toLength x)]))"

subsection \<open>Printing a number\<close>

definition digitChar :: "nat \<Rightarrow> char" where
  "digitChar d = ''0123456789'' ! d"

fun decimal :: "nat \<Rightarrow> string" where
  "decimal n = (if n < 10 then [digitChar n] else decimal (n div 10) @ [digitChar (n mod 10)])"

declare decimal.simps [simp del]

text \<open>
  The string a template literal puts for a number. An integer of magnitude at most \<open>2^53\<close>
  is printed with all its decimal digits. For any other finite number an engine prints
  the shortest digits that read back as the same binary64 value, in positional or
  exponent notation; these are not computed here: they are the parameter \<open>fmt\<close>.
\<close>

type_synonym number_format = "rat \<Rightarrow> string"

definition numberToString :: "number_format \<Rightarrow> jsnum \<Rightarrow> string" where
  "numberToString fmt x =
     (case x of
        NaN \<Rightarrow> ''NaN''
      | PosInfinity \<Rightarrow> ''Infinity''
      | NegInfinity \<Rightarrow> ''-Infinity''
      | Fin q \<Rightarrow>
          if of_int \<lfloor>q\<rfloor> = q \<and> \<bar>q\<bar> \<le> 2 ^ 53
          then (if q < 0 then ''-'' else []) @ decimal (nat \<bar>\<lfloor>q\<rfloor>\<bar>)
          else fmt q)"

text \<open>A format for examples in which every printed number is a small integer.\<close>

definition plainFormat :: number_format where
  "plainFormat q = decimal (nat \<bar>\<lfloor>q\<rfloor>\<bar>)"

subsection \<open>Strings\<close>

text \<open>
  A string is a list of characters; a character stands for a UTF-16 code unit below 256.
  \<^verbatim>\<open>String.prototype.trim\<close> removes white space and line terminators; below 256 these
  are the code units 9 to 13, 32 and 160.
\<close>

definition isWhiteSpace :: "char \<Rightarrow> bool" where
  "isWhiteSpace c = ((of_char c :: nat) \<in> {9, 10, 11, 12, 13, 32, 160})"

definition trim :: "string \<Rightarrow> string" where
  "trim s = rev (dropWhile isWhiteSpace (rev (dropWhile isWhiteSpace s)))"

definition startsWith :: "string \<Rightarrow> string \<Rightarrow> bool" where
  "startsWith s p = (take (length p) s = p)"

text \<open>\<^verbatim>\<open>s.replace(/^\./, "")\<close>: one leading dot is removed.\<close>

definition stripLeadingDot :: "string \<Rightarrow> string" where
  "stripLeadingDot s = (case s of [] \<Rightarrow> [] | c # cs \<Rightarrow> if c = CHR ''.'' then cs else s)"

text \<open>\<^verbatim>\<open>s || d\<close> on strings: the empty string is the falsy string.\<close>

definition orString :: "string \<Rightarrow> string \<Rightarrow> string" where
  "orString s d = (if s = [] then d else s)"

subsection \<open>Sets in insertion order\<close>

text \<open>
  A JavaScript \<^verbatim>\<open>Set\<close> keeps its members in the order of their first insertion;
  \<^verbatim>\<open>new Set(xs)\<close> adds the elements of \<open>xs\<close> one after the other, and \<^verbatim>\<open>Array.from\<close> on
  the set lists the members in that order.
\<close>

definition Set_add :: "'a \<Rightarrow> 'a list \<Rightarrow> 'a list" where
  "Set_add x s = (if x \<in> set s then s else s @ [x])"

definition new_Set :: "'a list \<Rightarrow> 'a list" where
  "new_Set xs = fold Set_add xs []"

definition Set_has :: "'a list \<Rightarrow> 'a \<Rightarrow> bool" where
  "Set_has s x = (x \<in> set s)"

section \<open>The settings document\<close>

text \<open>
  The interface \<^verbatim>\<open>SiteSettings\<close> of \<^verbatim>\<open>src/firebase.ts\<close>, field by field. A field name can
  belong to one record only, and \<^verbatim>\<open>id\<close> and \<^verbatim>\<open>end\<close> are taken: the fields \<^verbatim>\<open>id\<close> of a promotion,
  \<^verbatim>\<open>enabled\<close> and \<^verbatim>\<open>title\<close> of \<^verbatim>\<open>featuredNails\<close>, \<^verbatim>\<open>enabled\<close>, \<^verbatim>\<open>url\<close> and \<^verbatim>\<open>title\<close> of
  \<^verbatim>\<open>featuredVideo\<close>, and \<^verbatim>\<open>end\<close> of \<^verbatim>\<open>numbered\<close> are \<open>promoId\<close>, \<open>nailsEnabled\<close>, \<open>nailsTitle\<close>,
  \<open>videoEnabled\<close>, \<open>videoUrl\<close>, \<open>videoTitle\<close> and \<open>end'\<close> here. The documents below
  (\<open>settingsDoc\<close>) have the property names of the source.
\<close>

datatype GalleryMode = Numbered | Custom

datatype Fit = Cover | Contain

record Contact =
  addressLines :: "string list"
  mapUrl :: string
  phoneDisplay :: string
  phoneTel :: string
  whatsappDigits :: string
  email :: string
  hours :: string

record Socials =
  instagramUrl :: string
  facebookUrl :: string

record Media =
  heroVideoUrl :: string
  heroPosterUrl :: string
  heroVideoFit :: Fit
  heroVideoPosition :: string

record Promotion =
  promoId :: string
  title :: string
  description :: string
  badge :: string
  ctaText :: string
  imageUrl :: string
  validUntil :: string

record Promotions =
  enabled :: bool
  items :: "Promotion list"

record FeaturedNails =
  nailsEnabled :: bool
  nailsTitle :: string
  imageUrls :: "string list"

record FeaturedVideo =
  videoEnabled :: bool
  videoUrl :: string
  posterUrl :: string
  videoTitle :: string

record NumberedGallery =
  folder :: string
  start :: jsnum
  end' :: jsnum
  extension :: string
  order :: "jsnum list"

record Gallery =
  assetVersion :: jsnum
  mode :: GalleryMode
  initialCount :: jsnum
  pageSize :: jsnum
  tileFit :: Fit
  featuredNails :: FeaturedNails
  featuredVideo :: FeaturedVideo
  numbered :: NumberedGallery
  customImages :: "string list"

record SiteSettings =
  contact :: Contact
  socials :: Socials
  media :: Media
  promotions :: Promotions
  gallery :: Gallery

definition DEFAULT_SITE_SETTINGS :: SiteSettings where
  "DEFAULT_SITE_SETTINGS =
    \<lparr> contact =
        \<lparr> addressLines =
            [''248 Ben Viljoen St'', ''Pretoria North, Pretoria, 0116'', ''South Africa''],
          mapUrl = ''https://www.google.com/maps/search/?api=1&query=248+Ben+Viljoen+St,+Pretoria+North,+Pretoria,+0116,+South+Africa'',
          phoneDisplay = ''+27 69 288 8445'',
          phoneTel = ''+27692888445'',
          whatsappDigits = ''27692888445'',
          email = ''info@berlybeauty.co.za'',
          hours = ''Mon - Sun: 7:00 AM - 7:00 PM'' \<rparr>,
      socials =
        \<lparr> instagramUrl = ''https://www.instagram.com/salonberlybeauty10?igsh=MW42ZmFjY295NTk1eQ=='',
          facebookUrl = ''https://www.facebook.com/share/1HRogBAxNy/'' \<rparr>,
      media =
        \<lparr> heroVideoUrl = ''/gallery/1.mp4'',
          heroPosterUrl = ''/gallery/1.jpeg'',
          heroVideoFit = Cover,
          heroVideoPosition = ''50% 15%'' \<rparr>,
      promotions = \<lparr> enabled = True, items = [] \<rparr>,
      gallery =
        \<lparr> assetVersion = Fin 1,
          mode = Numbered,
          initialCount = Fin 11,
          pageSize = Fin 12,
          tileFit = Cover,
          featuredNails =
            \<lparr> nailsEnabled = True,
              nailsTitle = ''Nails Designs'',
              imageUrls = [''/gallery/nails1.jpeg'', ''/gallery/nails2.jpeg'', ''/gallery/nails3.jpeg''] \<rparr>,
          featuredVideo =
            \<lparr> videoEnabled = False,
              videoUrl = ''/gallery/nails.mp4'',
              posterUrl = ''/gallery/nails.jpeg'',
              videoTitle = ''Nails'' \<rparr>,
          numbered =
            \<lparr> folder = ''/gallery'',
              start = Fin 1,
              end' = Fin 50,
              extension = ''jpeg'',
              order = [] \<rparr>,
          customImages = [] \<rparr> \<rparr>"

section \<open>The gallery list\<close>

text \<open>
  \<^verbatim>\<open>buildGalleryImageList\<close> of \<^verbatim>\<open>src/firebase.ts\<close> (lines 266 to 303). The value has the type
  \<^verbatim>\<open>SiteSettings\<close>, so \<^verbatim>\<open>Array.isArray(order)\<close> and \<^verbatim>\<open>typeof assetVersion === "number"\<close>
  hold, \<^verbatim>\<open>Number(n)\<close> is \<open>n\<close>, and \<^verbatim>\<open>filter(Boolean)\<close> on strings removes the empty ones.
  The local constants of the function are definitions of their own. The result is \<open>None\<close>
  when the function throws, which it does when the range is too long for an array; the
  custom branch returns before the range is built.
\<close>

definition safeStart :: "SiteSettings \<Rightarrow> jsnum" where
  "safeStart settings =
     Math_max (Fin 1) (Math_floor (orNumber (start (numbered (gallery settings))) (Fin 1)))"

definition safeEnd :: "SiteSettings \<Rightarrow> jsnum" where
  "safeEnd settings =
     Math_max (safeStart settings)
       (Math_floor (orNumber (end' (numbered (gallery settings))) (safeStart settings)))"

definition ext :: "SiteSettings \<Rightarrow> string" where
  "ext settings = stripLeadingDot (orString (extension (numbered (gallery settings))) ''jpeg'')"

definition range' :: "SiteSettings \<Rightarrow> jsnum list option" where
  "range' settings =
     Array_from_length
       (plus_js (minus_js (safeEnd settings) (safeStart settings)) (Fin 1))
       (\<lambda>i. plus_js (safeStart settings) i)"

definition manual :: "SiteSettings \<Rightarrow> bool" where
  "manual settings = (length (order (numbered (gallery settings))) > 0)"

definition baseOrdered :: "SiteSettings \<Rightarrow> jsnum list" where
  "baseOrdered settings =
     (if manual settings
      then new_Set
             (filter
               (\<lambda>n. Number_isFinite n \<and> ge_js n (safeStart settings) \<and> le_js n (safeEnd settings))
               (map Math_floor (order (numbered (gallery settings)))))
      else [])"

definition orderedNumbers :: "SiteSettings \<Rightarrow> jsnum list option" where
  "orderedNumbers settings =
     (case range' settings of
        None \<Rightarrow> None
      | Some numbers \<Rightarrow>
          let baseSet = new_Set (baseOrdered settings) in
          Some (if manual settings
                then baseOrdered settings @ filter (\<lambda>n. \<not> Set_has baseSet n) numbers
                else numbers))"

definition imageUrlOf :: "number_format \<Rightarrow> SiteSettings \<Rightarrow> jsnum \<Rightarrow> string" where
  "imageUrlOf fmt settings n =
     folder (numbered (gallery settings)) @ ''/'' @ numberToString fmt n @ ''.'' @ ext settings
       @ ''?v='' @ numberToString fmt (assetVersion (gallery settings))"

definition buildGalleryImageList :: "number_format \<Rightarrow> SiteSettings \<Rightarrow> string list option" where
  "buildGalleryImageList fmt settings =
     (if mode (gallery settings) = Custom
      then Some (filter (\<lambda>s. s \<noteq> []) (customImages (gallery settings)))
      else map_option (map (imageUrlOf fmt settings)) (orderedNumbers settings))"

subsection \<open>The words of the specification\<close>

text \<open>An integer as a number of the program.\<close>

definition ofInt :: "int \<Rightarrow> jsnum" where
  "ofInt k = Fin (of_int k)"

text \<open>
  The specification's template for an entry, with the configured extension as it is
  stored: \<^verbatim>\<open>{folder}/{n}.{extension}?v={assetVersion}\<close>.
\<close>

definition specImageUrl :: "number_format \<Rightarrow> SiteSettings \<Rightarrow> jsnum \<Rightarrow> string" where
  "specImageUrl fmt settings n =
     folder (numbered (gallery settings)) @ ''/'' @ numberToString fmt n @ ''.''
       @ extension (numbered (gallery settings))
       @ ''?v='' @ numberToString fmt (assetVersion (gallery settings))"

text \<open>Deduplication that keeps the first occurrence of every element.\<close>

fun keepFirst :: "'a list \<Rightarrow> 'a list" where
  "keepFirst [] = []"
| "keepFirst (x # xs) = x # keepFirst (filter (\<lambda>y. y \<noteq> x) xs)"

text \<open>A finite integer within \<open>[a, b]\<close>.\<close>

definition inRangeInteger :: "int \<Rightarrow> int \<Rightarrow> jsnum \<Rightarrow> bool" where
  "inRangeInteger a b n =
     (case n of Fin q \<Rightarrow> of_int \<lfloor>q\<rfloor> = q \<and> a \<le> \<lfloor>q\<rfloor> \<and> \<lfloor>q\<rfloor> \<le> b | _ \<Rightarrow> False)"

text \<open>
  The specification's manual order over the range \<open>[a, b]\<close>: the order list filtered to
  finite integers within the range, deduplicated keeping the first occurrence, then every
  remaining integer of the range in ascending order.
\<close>

definition specOrderedNumbers :: "int \<Rightarrow> int \<Rightarrow> jsnum list \<Rightarrow> jsnum list" where
  "specOrderedNumbers a b ord =
     (let base = keepFirst (filter (inRangeInteger a b) ord)
      in base @ filter (\<lambda>n. n \<notin> set base) (map ofInt [a..b]))"

subsection \<open>Settings of the scenarios\<close>

text \<open>
  The defaults with folder \<^verbatim>\<open>/gallery\<close>, extension \<^verbatim>\<open>jpeg\<close>, \<^verbatim>\<open>assetVersion = 1\<close>, and the given
  \<^verbatim>\<open>start\<close>, \<^verbatim>\<open>end\<close> and order.
\<close>

definition spanScenario :: "jsnum \<Rightarrow> jsnum \<Rightarrow> jsnum list \<Rightarrow> SiteSettings" where
  "spanScenario x y ord =
     DEFAULT_SITE_SETTINGS
       \<lparr> gallery := (gallery DEFAULT_SITE_SETTINGS)
           \<lparr> assetVersion := Fin 1,
             numbered := \<lparr> folder = ''/gallery'', start = x, end' = y,
                           extension = ''jpeg'', order = ord \<rparr> \<rparr> \<rparr>"

text \<open>
  The defaults with folder \<^verbatim>\<open>/gallery\<close>, \<^verbatim>\<open>start = 1\<close>, \<^verbatim>\<open>end = 3\<close>, \<^verbatim>\<open>assetVersion = 1\<close>, and the
  given extension and order.
\<close>

definition scenario :: "string \<Rightarrow> jsnum list \<Rightarrow> SiteSettings" where
  "scenario e ord =
     DEFAULT_SITE_SETTINGS
       \<lparr> gallery := (gallery DEFAULT_SITE_SETTINGS)
           \<lparr> assetVersion := Fin 1,
             numbered := \<lparr> folder = ''/gallery'', start = Fin 1, end' = Fin 3,
                           extension = e, order = ord \<rparr> \<rparr> \<rparr>"

text \<open>The defaults in custom mode, with an empty entry between two stored references.\<close>

definition customScenario :: SiteSettings where
  "customScenario =
     DEFAULT_SITE_SETTINGS
       \<lparr> gallery := (gallery DEFAULT_SITE_SETTINGS)
           \<lparr> mode := Custom,
             customImages := [''https://cdn.x.com/b.png?v=3'', [], ''/gallery/a.jpeg''] \<rparr> \<rparr>"

section \<open>Featured images\<close>






















section \<open>Specials\<close>

text \<open>
  The list \<^verbatim>\<open>items\<close> of the component \<^verbatim>\<open>Specials\<close> (\<^verbatim>\<open>src/unnamed/part_000\<close>, lines 805 to 817).
  \<open>now\<close> is \<^verbatim>\<open>Date.now()\<close>, in milliseconds. \<open>getTime s\<close> is \<^verbatim>\<open>new Date(s).getTime()\<close>: the
  time stamp of a date string, or \<open>None\<close> for the \<^verbatim>\<open>NaN\<close> of a string that does not parse;
  how the engine parses a date is not part of the program. \<open>specialsFilter\<close> is the callback
  of \<^verbatim>\<open>filter\<close>; an element of the typed list is an object, so \<^verbatim>\<open>!x\<close> is false.
\<close>

definition specialsFilter :: "int \<Rightarrow> (string \<Rightarrow> int option) \<Rightarrow> Promotion \<Rightarrow> bool" where
  "specialsFilter now getTime x =
     (if trim (title x) = [] then False
      else if validUntil x = [] then True
      else (case getTime (validUntil x) of None \<Rightarrow> True | Some t \<Rightarrow> now \<le> t))"

definition specialsItems :: "int \<Rightarrow> (string \<Rightarrow> int option) \<Rightarrow> SiteSettings \<Rightarrow> Promotion list" where
  "specialsItems now getTime settings =
     (if \<not> enabled (promotions settings) then []
      else take 12 (filter (specialsFilter now getTime) (items (promotions settings))))"

text \<open>Promotions and a clock for the examples.\<close>

definition promo :: "string \<Rightarrow> string \<Rightarrow> Promotion" where
  "promo t v =
     \<lparr> promoId = ''p1'', title = t, description = ''Wash and style'', badge = ''Special'',
       ctaText = ''Book on WhatsApp'', imageUrl = [], validUntil = v \<rparr>"

definition sampleTime :: "string \<Rightarrow> int option" where
  "sampleTime s =
     (if s = ''2020-01-01'' then Some 1577836800000
      else if s = ''2999-01-01'' then Some 32472144000000
      else None)"

definition withPromotions :: "bool \<Rightarrow> Promotion list \<Rightarrow> SiteSettings" where
  "withPromotions on ps = DEFAULT_SITE_SETTINGS \<lparr> promotions := \<lparr> enabled = on, items = ps \<rparr> \<rparr>"

section \<open>Documents and values\<close>

text \<open>
  The settings arrive as a JSON document (from the local cache or the remote store) and
  are merged as untyped values. \<open>json\<close> is a document as \<^verbatim>\<open>JSON.parse\<close> reads it. \<open>jsval\<close> is
  a value at run time. An array or an object has an identity: the address it was
  allocated at. Two values with the same address are the same array or object, so a
  write through one is seen through the other.
\<close>

type_synonym addr = nat

datatype json =
    JNull
  | JBool bool
  | JNumber rat
  | JString string
  | JArray "json list"
  | JObject "(string \<times> json) list"

datatype jsval =
    VUndefined
  | VNull
  | VBool bool
  | VNumber jsnum
  | VString string
  | VArray addr "jsval list"
  | VObject addr "(string \<times> jsval) list"

text \<open>
  \<^verbatim>\<open>!v\<close> is \<open>\<not> truthy v\<close>. \<open>nullish v\<close>: the values that \<^verbatim>\<open>??\<close> and \<^verbatim>\<open>?.\<close> replace.
\<close>

definition truthy :: "jsval \<Rightarrow> bool" where
  "truthy v =
     (case v of
        VUndefined \<Rightarrow> False
      | VNull \<Rightarrow> False
      | VBool b \<Rightarrow> b
      | VNumber x \<Rightarrow> x \<noteq> NaN \<and> x \<noteq> Fin 0
      | VString s \<Rightarrow> s \<noteq> []
      | VArray a vs \<Rightarrow> True
      | VObject a fs \<Rightarrow> True)"

definition nullish :: "jsval \<Rightarrow> bool" where
  "nullish v = (v = VUndefined \<or> v = VNull)"

definition Array_isArray :: "jsval \<Rightarrow> bool" where
  "Array_isArray v = (case v of VArray a vs \<Rightarrow> True | _ \<Rightarrow> False)"

text \<open>
  \<^verbatim>\<open>typeof v === "number"\<close>; \<^verbatim>\<open>NaN\<close> is a number.
\<close>

definition typeof_number :: "jsval \<Rightarrow> bool" where
  "typeof_number v = (case v of VNumber x \<Rightarrow> True | _ \<Rightarrow> False)"

text \<open>
  The properties of an object are a list of keys and values in the order of their
  creation. \<open>setProperty\<close> defines a property: an existing key keeps its place. (The engine
  lists keys that are array indices first; no property is read by position here.)
\<close>

fun setProperty :: "string \<Rightarrow> jsval \<Rightarrow> (string \<times> jsval) list \<Rightarrow> (string \<times> jsval) list" where
  "setProperty k v [] = [(k, v)]"
| "setProperty k v ((k', v') # fs) = (if k' = k then (k, v) # fs else (k', v') # setProperty k v fs)"

definition lookup :: "(string \<times> jsval) list \<Rightarrow> string \<Rightarrow> jsval" where
  "lookup fs k = (case map_of fs k of None \<Rightarrow> VUndefined | Some v \<Rightarrow> v)"

text \<open>
  \<open>member v k\<close> is the read \<^verbatim>\<open>v.k\<close>, for the property names of \<^verbatim>\<open>SiteSettings\<close>: none of them is
  a property that a string, an array, a number or a boolean has of its own or inherits, so
  the read gives \<^verbatim>\<open>undefined\<close> on these. On \<^verbatim>\<open>undefined\<close> and \<^verbatim>\<open>null\<close> the read throws a
  \<^verbatim>\<open>TypeError\<close>: the result \<open>None\<close> stands for a thrown exception, here and in the functions
  below. \<open>optMember v k\<close> is \<^verbatim>\<open>v?.k\<close>. \<open>theMember\<close> reads a property of an object of the
  defaults.
\<close>

definition member :: "jsval \<Rightarrow> string \<Rightarrow> jsval option" where
  "member v k =
     (case v of
        VUndefined \<Rightarrow> None
      | VNull \<Rightarrow> None
      | VObject a fs \<Rightarrow> Some (lookup fs k)
      | _ \<Rightarrow> Some VUndefined)"

definition optMember :: "jsval \<Rightarrow> string \<Rightarrow> jsval" where
  "optMember v k = (case member v k of None \<Rightarrow> VUndefined | Some x \<Rightarrow> x)"

definition theMember :: "jsval \<Rightarrow> string \<Rightarrow> jsval" where
  "theMember v k = (case v of VObject a fs \<Rightarrow> lookup fs k | _ \<Rightarrow> VUndefined)"

text \<open>
  Object spread \<^verbatim>\<open>{ ...target, ...v }\<close> copies the own enumerable properties of \<open>v\<close>: the
  properties of an object, the elements of an array and the characters of a string under
  their indices, nothing for the other values. \<open>spreadOrEmpty target v\<close> is
  \<^verbatim>\<open>{ ...target, ...(v ?? {}) }\<close>, \<open>orDefault v d\<close> is \<^verbatim>\<open>v ?? d\<close>, and \<open>withProperties base props\<close>
  is an object literal that continues with the properties \<open>props\<close>.
\<close>

definition ownEntries :: "jsval \<Rightarrow> (string \<times> jsval) list" where
  "ownEntries v =
     (case v of
        VObject a fs \<Rightarrow> fs
      | VArray a vs \<Rightarrow> zip (map decimal [0..<length vs]) vs
      | VString s \<Rightarrow> zip (map decimal [0..<length s]) (map (\<lambda>c. VString [c]) s)
      | _ \<Rightarrow> [])"

definition spread :: "(string \<times> jsval) list \<Rightarrow> jsval \<Rightarrow> (string \<times> jsval) list" where
  "spread target v = fold (\<lambda>(k, x). setProperty k x) (ownEntries v) target"

definition spreadOrEmpty :: "(string \<times> jsval) list \<Rightarrow> jsval \<Rightarrow> (string \<times> jsval) list" where
  "spreadOrEmpty target v = (if nullish v then target else spread target v)"

definition orDefault :: "jsval \<Rightarrow> jsval \<Rightarrow> jsval" where
  "orDefault v d = (if nullish v then d else v)"

definition withProperties ::
    "(string \<times> jsval) list \<Rightarrow> (string \<times> jsval) list \<Rightarrow> (string \<times> jsval) list" where
  "withProperties base props = fold (\<lambda>(k, x). setProperty k x) props base"

text \<open>
  \<^verbatim>\<open>JSON.stringify\<close>, as the document it writes: \<^verbatim>\<open>undefined\<close> gives no text (\<open>None\<close>), a
  property with the value \<^verbatim>\<open>undefined\<close> is left out, and \<^verbatim>\<open>undefined\<close> in an array, \<^verbatim>\<open>NaN\<close> and
  the infinities are written as \<^verbatim>\<open>null\<close>.
\<close>

fun JSON_stringify :: "jsval \<Rightarrow> json option"
  and stringifyElements :: "jsval list \<Rightarrow> json list"
  and stringifyFields :: "(string \<times> jsval) list \<Rightarrow> (string \<times> json) list" where
  "JSON_stringify VUndefined = None"
| "JSON_stringify VNull = Some JNull"
| "JSON_stringify (VBool b) = Some (JBool b)"
| "JSON_stringify (VNumber x) = Some (case x of Fin q \<Rightarrow> JNumber q | _ \<Rightarrow> JNull)"
| "JSON_stringify (VString s) = Some (JString s)"
| "JSON_stringify (VArray a vs) = Some (JArray (stringifyElements vs))"
| "JSON_stringify (VObject a fs) = Some (JObject (stringifyFields fs))"
| "stringifyElements [] = []"
| "stringifyElements (v # vs) =
     (case JSON_stringify v of None \<Rightarrow> JNull | Some j \<Rightarrow> j) # stringifyElements vs"
| "stringifyFields [] = []"
| "stringifyFields ((k, v) # fs) =
     (case JSON_stringify v of None \<Rightarrow> stringifyFields fs | Some j \<Rightarrow> (k, j) # stringifyFields fs)"

text \<open>
  \<^verbatim>\<open>JSON.parse\<close>, from the document on: it builds the value, and every array and object
  gets a fresh address. The state of the allocator is the next free address; it is passed
  in and returned. A repeated key of an object keeps the place of its first occurrence
  and the value of its last.
\<close>

fun alloc :: "json \<Rightarrow> addr \<Rightarrow> jsval \<times> addr"
  and allocElements :: "json list \<Rightarrow> addr \<Rightarrow> jsval list \<times> addr"
  and allocFields ::
    "(string \<times> json) list \<Rightarrow> (string \<times> jsval) list \<Rightarrow> addr \<Rightarrow> (string \<times> jsval) list \<times> addr"
  where
  "alloc JNull n = (VNull, n)"
| "alloc (JBool b) n = (VBool b, n)"
| "alloc (JNumber q) n = (VNumber (Fin q), n)"
| "alloc (JString s) n = (VString s, n)"
| "alloc (JArray js) n = (let (vs, n') = allocElements js (Suc n) in (VArray n vs, n'))"
| "alloc (JObject kjs) n = (let (fs, n') = allocFields kjs [] (Suc n) in (VObject n fs, n'))"
| "allocElements [] n = ([], n)"
| "allocElements (j # js) n =
     (let (v, n1) = alloc j n; (vs, n2) = allocElements js n1 in (v # vs, n2))"
| "allocFields [] acc n = (acc, n)"
| "allocFields ((k, j) # kjs) acc n =
     (let (v, n1) = alloc j n in allocFields kjs (setProperty k v acc) n1)"

text \<open>
  \<^verbatim>\<open>deepClone(value)\<close> is \<^verbatim>\<open>JSON.parse(JSON.stringify(value))\<close>; \<^verbatim>\<open>JSON.parse(undefined)\<close>
  throws.
\<close>

definition deepClone :: "jsval \<Rightarrow> addr \<Rightarrow> (jsval \<times> addr) option" where
  "deepClone v n = (case JSON_stringify v of None \<Rightarrow> None | Some j \<Rightarrow> Some (alloc j n))"

subsection \<open>The defaults as an object\<close>

text \<open>
  The document that \<^verbatim>\<open>JSON.stringify\<close> writes for a value of the interface \<^verbatim>\<open>SiteSettings\<close>,
  with the property names of the source.
\<close>

definition numberDoc :: "jsnum \<Rightarrow> json" where
  "numberDoc x = (case x of Fin q \<Rightarrow> JNumber q | _ \<Rightarrow> JNull)"

definition stringsDoc :: "string list \<Rightarrow> json" where
  "stringsDoc xs = JArray (map JString xs)"

definition fitDoc :: "Fit \<Rightarrow> json" where
  "fitDoc f = JString (case f of Cover \<Rightarrow> ''cover'' | Contain \<Rightarrow> ''contain'')"

definition modeDoc :: "GalleryMode \<Rightarrow> json" where
  "modeDoc m = JString (case m of Numbered \<Rightarrow> ''numbered'' | Custom \<Rightarrow> ''custom'')"

definition promotionDoc :: "Promotion \<Rightarrow> json" where
  "promotionDoc p =
     JObject
       [(''id'', JString (promoId p)),
        (''title'', JString (title p)),
        (''description'', JString (description p)),
        (''badge'', JString (badge p)),
        (''ctaText'', JString (ctaText p)),
        (''imageUrl'', JString (imageUrl p)),
        (''validUntil'', JString (validUntil p))]"

definition contactDoc :: "Contact \<Rightarrow> json" where
  "contactDoc c =
     JObject
       [(''addressLines'', stringsDoc (addressLines c)),
        (''mapUrl'', JString (mapUrl c)),
        (''phoneDisplay'', JString (phoneDisplay c)),
        (''phoneTel'', JString (phoneTel c)),
        (''whatsappDigits'', JString (whatsappDigits c)),
        (''email'', JString (email c)),
        (''hours'', JString (hours c))]"

definition socialsDoc :: "Socials \<Rightarrow> json" where
  "socialsDoc x =
     JObject
       [(''instagramUrl'', JString (instagramUrl x)),
        (''facebookUrl'', JString (facebookUrl x))]"

definition mediaDoc :: "Media \<Rightarrow> json" where
  "mediaDoc m =
     JObject
       [(''heroVideoUrl'', JString (heroVideoUrl m)),
        (''heroPosterUrl'', JString (heroPosterUrl m)),
        (''heroVideoFit'', fitDoc (heroVideoFit m)),
        (''heroVideoPosition'', JString (heroVideoPosition m))]"

definition promotionsDoc :: "Promotions \<Rightarrow> json" where
  "promotionsDoc p =
     JObject
       [(''enabled'', JBool (enabled p)),
        (''items'', JArray (map promotionDoc (items p)))]"

definition featuredNailsDoc :: "FeaturedNails \<Rightarrow> json" where
  "featuredNailsDoc f =
     JObject
       [(''enabled'', JBool (nailsEnabled f)),
        (''title'', JString (nailsTitle f)),
        (''imageUrls'', stringsDoc (imageUrls f))]"

definition featuredVideoDoc :: "FeaturedVideo \<Rightarrow> json" where
  "featuredVideoDoc f =
     JObject
       [(''enabled'', JBool (videoEnabled f)),
        (''url'', JString (videoUrl f)),
        (''posterUrl'', JString (posterUrl f)),
        (''title'', JString (videoTitle f))]"

definition numberedDoc :: "NumberedGallery \<Rightarrow> json" where
  "numberedDoc g =
     JObject
       [(''folder'', JString (folder g)),
        (''start'', numberDoc (start g)),
        (''end'', numberDoc (end' g)),
        (''extension'', JString (extension g)),
        (''order'', JArray (map numberDoc (order g)))]"

definition galleryDoc :: "Gallery \<Rightarrow> json" where
  "galleryDoc g =
     JObject
       [(''assetVersion'', numberDoc (assetVersion g)),
        (''mode'', modeDoc (mode g)),
        (''initialCount'', numberDoc (initialCount g)),
        (''pageSize'', numberDoc (pageSize g)),
        (''tileFit'', fitDoc (tileFit g)),
        (''featuredNails'', featuredNailsDoc (featuredNails g)),
        (''featuredVideo'', featuredVideoDoc (featuredVideo g)),
        (''numbered'', numberedDoc (numbered g)),
        (''customImages'', stringsDoc (customImages g))]"

definition settingsDoc :: "SiteSettings \<Rightarrow> json" where
  "settingsDoc s =
     JObject
       [(''contact'', contactDoc (contact s)),
        (''socials'', socialsDoc (socials s)),
        (''media'', mediaDoc (media s)),
        (''promotions'', promotionsDoc (promotions s)),
        (''gallery'', galleryDoc (gallery s))]"

text \<open>
  The module constant \<^verbatim>\<open>DEFAULT_SITE_SETTINGS\<close> at run time: the object of the defaults,
  allocated when the module is loaded, at the addresses from \<open>0\<close>. \<open>heapStart\<close> is the first
  address that is free after it.
\<close>

definition DEFAULT_OBJECT :: jsval where
  "DEFAULT_OBJECT = fst (alloc (settingsDoc DEFAULT_SITE_SETTINGS) 0)"

definition heapStart :: addr where
  "heapStart = snd (alloc (settingsDoc DEFAULT_SITE_SETTINGS) 0)"

subsection \<open>Merging and loading\<close>

text \<open>
  \<^verbatim>\<open>mergeSettings\<close> of \<^verbatim>\<open>src/firebase.ts\<close> (lines 187 to 246). The parameter is a value of any
  shape: the source casts it. \<open>n\<close> is the next free address; the object literal creates
  nine objects. The reads of \<open>s\<close> come first, each one as the source guards it: the reads
  with \<^verbatim>\<open>!.\<close> and without \<^verbatim>\<open>?.\<close> can throw.
\<close>

definition mergeSettings :: "jsval \<Rightarrow> addr \<Rightarrow> (jsval \<times> addr) option" where
  "mergeSettings partial n =
     (if \<not> truthy partial then deepClone DEFAULT_OBJECT n
      else
        let s = partial;
            d = DEFAULT_OBJECT;
            dGallery = theMember d ''gallery''
        in
        do {
          sContact \<leftarrow> member s ''contact'';
          sSocials \<leftarrow> member s ''socials'';
          sMedia \<leftarrow> member s ''media'';
          sPromotions \<leftarrow> member s ''promotions'';
          items' \<leftarrow>
            (if Array_isArray (optMember sPromotions ''items'')
             then member sPromotions ''items''
             else Some (theMember (theMember d ''promotions'') ''items''));
          sGallery \<leftarrow> member s ''gallery'';
          assetVersion' \<leftarrow>
            (if typeof_number (optMember sGallery ''assetVersion'')
             then member sGallery ''assetVersion''
             else Some (theMember dGallery ''assetVersion''));
          imageUrls' \<leftarrow>
            (if Array_isArray (optMember (optMember sGallery ''featuredNails'') ''imageUrls'')
             then do { f \<leftarrow> member sGallery ''featuredNails''; member f ''imageUrls'' }
             else Some (theMember (theMember dGallery ''featuredNails'') ''imageUrls''));
          order' \<leftarrow>
            (if Array_isArray (optMember (optMember sGallery ''numbered'') ''order'')
             then do { g \<leftarrow> member sGallery ''numbered''; member g ''order'' }
             else Some (theMember (theMember dGallery ''numbered'') ''order''));
          customImages' \<leftarrow>
            (if Array_isArray (optMember sGallery ''customImages'')
             then member sGallery ''customImages''
             else Some (theMember dGallery ''customImages''));
          Some
            (VObject n
              [(''contact'',
                  VObject (n + 1) (spreadOrEmpty (ownEntries (theMember d ''contact'')) sContact)),
               (''socials'',
                  VObject (n + 2) (spreadOrEmpty (ownEntries (theMember d ''socials'')) sSocials)),
               (''media'',
                  VObject (n + 3) (spreadOrEmpty (ownEntries (theMember d ''media'')) sMedia)),
               (''promotions'',
                  VObject (n + 4)
                    (withProperties
                      (spreadOrEmpty (ownEntries (theMember d ''promotions'')) sPromotions)
                      [(''items'', items')])),
               (''gallery'',
                  VObject (n + 5)
                    (withProperties
                      (spreadOrEmpty (ownEntries dGallery) sGallery)
                      [(''assetVersion'', assetVersion'),
                       (''tileFit'',
                          orDefault (optMember sGallery ''tileFit'') (theMember dGallery ''tileFit'')),
                       (''featuredNails'',
                          VObject (n + 6)
                            (withProperties
                              (spreadOrEmpty (ownEntries (theMember dGallery ''featuredNails''))
                                (optMember sGallery ''featuredNails''))
                              [(''imageUrls'', imageUrls')])),
                       (''featuredVideo'',
                          VObject (n + 7)
                            (spreadOrEmpty (ownEntries (theMember dGallery ''featuredVideo''))
                              (optMember sGallery ''featuredVideo''))),
                       (''numbered'',
                          VObject (n + 8)
                            (withProperties
                              (spreadOrEmpty (ownEntries (theMember dGallery ''numbered''))
                                (optMember sGallery ''numbered''))
                              [(''order'', order')])),
                       (''customImages'', customImages')]))],
             n + 9)
        })"

text \<open>
  \<^verbatim>\<open>loadFromLocalStorage\<close> of \<^verbatim>\<open>src/firebase.ts\<close> (lines 251 to 260). \<open>stored\<close> is the result of
  \<^verbatim>\<open>localStorage.getItem(STORAGE_KEY)\<close>, \<open>None\<close> for \<^verbatim>\<open>null\<close>. \<open>parse\<close> is the grammar of
  \<^verbatim>\<open>JSON.parse\<close>, a parameter: the document of a text, or \<open>None\<close> when the text is not JSON
  and \<^verbatim>\<open>JSON.parse\<close> throws. The \<^verbatim>\<open>catch\<close> block takes every exception of the \<^verbatim>\<open>try\<close> block.
\<close>

definition loadFromLocalStorage ::
    "(string \<Rightarrow> json option) \<Rightarrow> string option \<Rightarrow> addr \<Rightarrow> (jsval \<times> addr) option" where
  "loadFromLocalStorage parse stored n =
     (case stored of
        None \<Rightarrow> deepClone DEFAULT_OBJECT n
      | Some raw \<Rightarrow>
          if raw = [] then deepClone DEFAULT_OBJECT n
          else
            (case parse raw of
               None \<Rightarrow> deepClone DEFAULT_OBJECT n
             | Some j \<Rightarrow>
                 (let (parsed, n1) = alloc j n
                  in case mergeSettings parsed n1 of
                       None \<Rightarrow> deepClone DEFAULT_OBJECT n1
                     | Some r \<Rightarrow> Some r)))"

subsection \<open>Identity and completeness\<close>

text \<open>
  \<open>addrs v\<close>: the addresses of the arrays and objects that can be reached from \<open>v\<close>.
  \<open>mutate a f v\<close>: the value \<open>v\<close> after a write to the array or object at the address \<open>a\<close>,
  where \<open>f\<close> is the change that the write makes to it.
\<close>

fun addrs :: "jsval \<Rightarrow> addr set"
  and addrsElements :: "jsval list \<Rightarrow> addr set"
  and addrsFields :: "(string \<times> jsval) list \<Rightarrow> addr set" where
  "addrs (VArray a vs) = insert a (addrsElements vs)"
| "addrs (VObject a fs) = insert a (addrsFields fs)"
| "addrs v = {}"
| "addrsElements [] = {}"
| "addrsElements (v # vs) = addrs v \<union> addrsElements vs"
| "addrsFields [] = {}"
| "addrsFields ((k, v) # fs) = addrs v \<union> addrsFields fs"

fun mutate :: "addr \<Rightarrow> (jsval \<Rightarrow> jsval) \<Rightarrow> jsval \<Rightarrow> jsval"
  and mutateElements :: "addr \<Rightarrow> (jsval \<Rightarrow> jsval) \<Rightarrow> jsval list \<Rightarrow> jsval list"
  and mutateFields ::
    "addr \<Rightarrow> (jsval \<Rightarrow> jsval) \<Rightarrow> (string \<times> jsval) list \<Rightarrow> (string \<times> jsval) list" where
  "mutate a f (VArray b vs) = (if a = b then f (VArray b vs) else VArray b (mutateElements a f vs))"
| "mutate a f (VObject b fs) = (if a = b then f (VObject b fs) else VObject b (mutateFields a f fs))"
| "mutate a f v = v"
| "mutateElements a f [] = []"
| "mutateElements a f (v # vs) = mutate a f v # mutateElements a f vs"
| "mutateFields a f [] = []"
| "mutateFields a f ((k, v) # fs) = (k, mutate a f v) # mutateFields a f fs"

text \<open>
  \<open>completeFor j v\<close>: \<open>v\<close> has every property that the document \<open>j\<close> has, at every level;
  where \<open>j\<close> has an object, \<open>v\<close> has an object.
\<close>

fun completeFor :: "json \<Rightarrow> jsval \<Rightarrow> bool"
  and fieldsComplete :: "(string \<times> json) list \<Rightarrow> (string \<times> jsval) list \<Rightarrow> bool" where
  "completeFor (JObject kjs) v = (case v of VObject a fs \<Rightarrow> fieldsComplete kjs fs | _ \<Rightarrow> False)"
| "completeFor j v = True"
| "fieldsComplete [] fs = True"
| "fieldsComplete ((k, j) # kjs) fs =
     ((case map_of fs k of None \<Rightarrow> False | Some x \<Rightarrow> completeFor j x) \<and> fieldsComplete kjs fs)"

text \<open>
  \<open>atPath v path\<close> reads along a path of property names in a merged document or in the
  defaults, \<open>incoming s path\<close> reads along the path in the incoming value, with \<^verbatim>\<open>?.\<close> at
  every step. \<open>guardedField ok s path\<close> is the incoming value at the path if it has the
  shape \<open>ok\<close>, and the default otherwise.
\<close>

definition atPath :: "jsval \<Rightarrow> string list \<Rightarrow> jsval" where
  "atPath v path = foldl theMember v path"

definition incoming :: "jsval \<Rightarrow> string list \<Rightarrow> jsval" where
  "incoming v path = foldl optMember v path"

definition guardedField :: "(jsval \<Rightarrow> bool) \<Rightarrow> jsval \<Rightarrow> string list \<Rightarrow> jsval" where
  "guardedField ok s path =
     (if ok (incoming s path) then incoming s path else atPath DEFAULT_OBJECT path)"

text \<open>
  The result of \<open>mergeSettings\<close> for a truthy value, with the reads that cannot throw
  written as \<^verbatim>\<open>?.\<close> (see \<open>mergeSettings_truthy\<close> below).
\<close>

definition mergedObject :: "jsval \<Rightarrow> addr \<Rightarrow> jsval" where
  "mergedObject s n =
     (let d = DEFAULT_OBJECT;
          dGallery = theMember d ''gallery'';
          sPromotions = optMember s ''promotions'';
          sGallery = optMember s ''gallery''
      in
      VObject n
        [(''contact'',
            VObject (n + 1) (spreadOrEmpty (ownEntries (theMember d ''contact'')) (optMember s ''contact''))),
         (''socials'',
            VObject (n + 2) (spreadOrEmpty (ownEntries (theMember d ''socials'')) (optMember s ''socials''))),
         (''media'',
            VObject (n + 3) (spreadOrEmpty (ownEntries (theMember d ''media'')) (optMember s ''media''))),
         (''promotions'',
            VObject (n + 4)
              (withProperties
                (spreadOrEmpty (ownEntries (theMember d ''promotions'')) sPromotions)
                [(''items'',
                    if Array_isArray (optMember sPromotions ''items'')
                    then optMember sPromotions ''items''
                    else theMember (theMember d ''promotions'') ''items'')])),
         (''gallery'',
            VObject (n + 5)
              (withProperties
                (spreadOrEmpty (ownEntries dGallery) sGallery)
                [(''assetVersion'',
                    if typeof_number (optMember sGallery ''assetVersion'')
                    then optMember sGallery ''assetVersion''
                    else theMember dGallery ''assetVersion''),
                 (''tileFit'',
                    orDefault (optMember sGallery ''tileFit'') (theMember dGallery ''tileFit'')),
                 (''featuredNails'',
                    VObject (n + 6)
                      (withProperties
                        (spreadOrEmpty (ownEntries (theMember dGallery ''featuredNails''))
                          (optMember sGallery ''featuredNails''))
                        [(''imageUrls'',
                            if Array_isArray (optMember (optMember sGallery ''featuredNails'') ''imageUrls'')
                            then optMember (optMember sGallery ''featuredNails'') ''imageUrls''
                            else theMember (theMember dGallery ''featuredNails'') ''imageUrls'')])),
                 (''featuredVideo'',
                    VObject (n + 7)
                      (spreadOrEmpty (ownEntries (theMember dGallery ''featuredVideo''))
                        (optMember sGallery ''featuredVideo''))),
                 (''numbered'',
                    VObject (n + 8)
                      (withProperties
                        (spreadOrEmpty (ownEntries (theMember dGallery ''numbered''))
                          (optMember sGallery ''numbered''))
                        [(''order'',
                            if Array_isArray (optMember (optMember sGallery ''numbered'') ''order'')
                            then optMember (optMember sGallery ''numbered'') ''order''
                            else theMember (theMember dGallery ''numbered'') ''order'')])),
                 (''customImages'',
                    if Array_isArray (optMember sGallery ''customImages'')
                    then optMember sGallery ''customImages''
                    else theMember dGallery ''customImages'')]))])"

text \<open>
  \<open>present fs k\<close>: the object with the properties \<open>fs\<close> has the property \<open>k\<close>.
\<close>

definition present :: "(string \<times> jsval) list \<Rightarrow> string \<Rightarrow> bool" where
  "present fs k = (map_of fs k \<noteq> None)"

text \<open>
  The type \<^verbatim>\<open>SiteSettings\<close> on untyped values. \<open>hasShape spec v\<close>: \<open>v\<close> is an object and, for
  every pair of \<open>spec\<close>, its property of that name has that type; an absent property reads
  as \<^verbatim>\<open>undefined\<close>, which has none of the types. \<open>isSiteSettings v\<close>: \<open>v\<close> has the type of the
  interface, field by field.
\<close>

definition isString :: "jsval \<Rightarrow> bool" where
  "isString v = (case v of VString s \<Rightarrow> True | _ \<Rightarrow> False)"

definition isBoolean :: "jsval \<Rightarrow> bool" where
  "isBoolean v = (case v of VBool b \<Rightarrow> True | _ \<Rightarrow> False)"

definition isOneOf :: "string list \<Rightarrow> jsval \<Rightarrow> bool" where
  "isOneOf names v = (case v of VString s \<Rightarrow> s \<in> set names | _ \<Rightarrow> False)"

definition isArrayOf :: "(jsval \<Rightarrow> bool) \<Rightarrow> jsval \<Rightarrow> bool" where
  "isArrayOf t v = (case v of VArray a vs \<Rightarrow> list_all t vs | _ \<Rightarrow> False)"

definition hasShape :: "(string \<times> (jsval \<Rightarrow> bool)) list \<Rightarrow> jsval \<Rightarrow> bool" where
  "hasShape spec v =
     (case v of VObject a fs \<Rightarrow> list_all (\<lambda>(k, t). t (lookup fs k)) spec | _ \<Rightarrow> False)"

definition isPromotion :: "jsval \<Rightarrow> bool" where
  "isPromotion =
     hasShape
       [(''id'', isString), (''title'', isString), (''description'', isString),
        (''badge'', isString), (''ctaText'', isString), (''imageUrl'', isString),
        (''validUntil'', isString)]"

definition isSiteSettings :: "jsval \<Rightarrow> bool" where
  "isSiteSettings =
     hasShape
       [(''contact'',
           hasShape
             [(''addressLines'', isArrayOf isString), (''mapUrl'', isString),
              (''phoneDisplay'', isString), (''phoneTel'', isString),
              (''whatsappDigits'', isString), (''email'', isString), (''hours'', isString)]),
        (''socials'', hasShape [(''instagramUrl'', isString), (''facebookUrl'', isString)]),
        (''media'',
           hasShape
             [(''heroVideoUrl'', isString), (''heroPosterUrl'', isString),
              (''heroVideoFit'', isOneOf [''cover'', ''contain'']),
              (''heroVideoPosition'', isString)]),
        (''promotions'',
           hasShape [(''enabled'', isBoolean), (''items'', isArrayOf isPromotion)]),
        (''gallery'',
           hasShape
             [(''assetVersion'', typeof_number),
              (''mode'', isOneOf [''numbered'', ''custom'']),
              (''initialCount'', typeof_number),
              (''pageSize'', typeof_number),
              (''tileFit'', isOneOf [''cover'', ''contain'']),
              (''featuredNails'',
                 hasShape
                   [(''enabled'', isBoolean), (''title'', isString),
                    (''imageUrls'', isArrayOf isString)]),
              (''featuredVideo'',
                 hasShape
                   [(''enabled'', isBoolean), (''url'', isString), (''posterUrl'', isString),
                    (''title'', isString)]),
              (''numbered'',
                 hasShape
                   [(''folder'', isString), (''start'', typeof_number), (''end'', typeof_number),
                    (''extension'', isString), (''order'', isArrayOf typeof_number)]),
              (''customImages'', isArrayOf isString)])]"

text \<open>
  Documents and a parser for the examples: a document with only \<^verbatim>\<open>contact.email\<close>, a document
  whose \<^verbatim>\<open>contact.addressLines\<close> is a string, the names of the five sections, a cache text
  whose \<^verbatim>\<open>socials.instagramUrl\<close> is \<^verbatim>\<open>null\<close> and whose \<^verbatim>\<open>gallery.mode\<close> is \<open>5\<close> with the document
  it denotes, and a parser that reads that text and the text \<^verbatim>\<open>{}\<close> and rejects every other
  text.
\<close>

definition emailDocument :: "string \<Rightarrow> json" where
  "emailDocument e = JObject [(''contact'', JObject [(''email'', JString e)])]"

definition addressLinesDocument :: json where
  "addressLinesDocument = JObject [(''contact'', JObject [(''addressLines'', JString ''x'')])]"

definition sections :: "string list" where
  "sections = [''contact'', ''socials'', ''media'', ''promotions'', ''gallery'']"

definition quoted :: "string \<Rightarrow> string" where
  "quoted s = CHR 0x22 # s @ [CHR 0x22]"

definition untypedText :: string where
  "untypedText =
     ''{'' @ quoted ''socials'' @ '':{'' @ quoted ''instagramUrl'' @ '':null},''
       @ quoted ''gallery'' @ '':{'' @ quoted ''mode'' @ '':5}}''"

definition untypedDocument :: json where
  "untypedDocument =
     JObject
       [(''socials'', JObject [(''instagramUrl'', JNull)]),
        (''gallery'', JObject [(''mode'', JNumber 5)])]"

definition parseSample :: "string \<Rightarrow> json option" where
  "parseSample raw =
     (if raw = ''{}'' then Some (JObject [])
      else if raw = untypedText then Some untypedDocument
      else None)"

section \<open>Properties of the numbers\<close>

lemma roundHalfEven_int: "roundHalfEven (of_int j) = j"
  by (simp add: roundHalfEven_def)

lemma bitLength_bounds:
  "0 < n \<Longrightarrow> \<exists>d. bitLength n = int (Suc d) \<and> 2 ^ d \<le> n \<and> n < 2 ^ Suc d"
proof (induction n rule: bitLength.induct)
  case (1 n)
  show ?case
  proof (cases "n = 1")
    case True
    have "bitLength 1 = int (Suc 0)"
      by (simp add: bitLength.simps [of 1] bitLength.simps [of 0])
    with True show ?thesis by (intro exI [of _ 0]) simp
  next
    case False
    with 1(2) have pos: "0 < n div 2" by simp
    from 1(1) [OF _ pos] 1(2)
    obtain d where d: "bitLength (n div 2) = int (Suc d)" "2 ^ d \<le> n div 2" "n div 2 < 2 ^ Suc d"
      by auto
    have bl: "bitLength n = int (Suc (Suc d))"
      using 1(2) d(1) by (simp add: bitLength.simps [of n])
    have lo: "2 ^ Suc d \<le> n" using d(2) by simp
    have hi: "n < 2 ^ Suc (Suc d)" using d(3) by simp
    show ?thesis using bl lo hi by blast
  qed
qed

text \<open>A number whose quotient by the spacing of its binade is an integer is not rounded.\<close>

lemma round64_exact:
  assumes "q \<noteq> 0" and "binade \<bar>q\<bar> = e" and "- 1022 \<le> e" and "e < 1023"
    and "\<bar>q\<bar> / pow2 (e - 52) = of_int j"
  shows "round64 q = Fin q"
proof -
  have m: "roundHalfEven (\<bar>q\<bar> / pow2 (e - 52)) = j"
    by (simp only: assms(5) roundHalfEven_int)
  have pz: "pow2 (e - 52) \<noteq> 0" by (simp add: pow2_def)
  have prod: "of_int j * pow2 (e - 52) = \<bar>q\<bar>"
    using assms(5) pz by (simp add: field_simps)
  have "(if 0 < q then 1 else - 1) * of_int j * pow2 (e - 52)
          = (if 0 < q then 1 else - 1) * (of_int j * pow2 (e - 52))"
    by (simp only: mult.assoc)
  also have "\<dots> = q" using assms(1) by (simp only: prod) simp
  finally have sg: "(if 0 < q then 1 else - 1) * of_int j * pow2 (e - 52) = q" .
  have mx: "max (binade \<bar>q\<bar>) (- 1022) = e" using assms(2,3) by simp
  show ?thesis
    by (simp only: round64_def Let_def mx m sg) (use assms(1,4) in simp)
qed

text \<open>The integers of magnitude at most \<open>2^53\<close> are binary64 values.\<close>

lemma round64_int:
  assumes "\<bar>k\<bar> \<le> 2 ^ 53"
  shows "round64 (of_int k) = Fin (of_int k)"
proof (cases "k = 0")
  case True
  then show ?thesis by (simp add: round64_def)
next
  case False
  define n where "n = \<bar>k\<bar>"
  have n: "0 < n" "n \<le> 2 ^ 53" using False assms by (simp_all add: n_def)
  have abs: "\<bar>of_int k :: rat\<bar> = of_int n" by (simp add: n_def)
  from bitLength_bounds [OF n(1)]
  obtain d where d: "bitLength n = int (Suc d)" "2 ^ d \<le> n" "n < 2 ^ Suc d" by blast
  have one: "(1 :: rat) \<le> of_int n" using n(1) by simp
  have bin: "binade \<bar>of_int k\<bar> = int d"
    using one by (simp add: abs binade_def d(1))
  have "(2 :: int) ^ d \<le> 2 ^ 53" by (rule order_trans [OF d(2) n(2)])
  then have d53: "d \<le> 53" by (simp only: power_increasing_iff)
  have nz: "(of_int k :: rat) \<noteq> 0" using False by simp
  have "\<exists>j. (of_int n :: rat) / pow2 (int d - 52) = of_int j"
  proof (cases "d = 53")
    case True
    have "2 ^ 53 \<le> n" using d(2) by (simp only: True)
    with n(2) have n53: "n = 2 ^ 53" by simp
    have p: "pow2 (int d - 52) = 2" by (simp add: True pow2_def)
    have "(of_int n :: rat) / 2 = of_int (2 ^ 52)" by (simp add: n53)
    then show ?thesis by (simp only: p) blast
  next
    case False
    with d53 have d52: "d \<le> 52" by simp
    have p: "pow2 (int d - 52) = 1 / 2 ^ (52 - d)"
    proof (cases "d = 52")
      case True
      then show ?thesis by (simp add: pow2_def)
    next
      case False
      with d52 have lt: "d < 52" by simp
      then have "\<not> 0 \<le> int d - 52" by simp
      moreover have "nat (- (int d - 52)) = 52 - d" using lt by simp
      ultimately show ?thesis by (simp only: pow2_def if_False)
    qed
    have "(of_int n :: rat) / (1 / 2 ^ (52 - d)) = of_int (n * 2 ^ (52 - d))" by simp
    then show ?thesis by (simp only: p) blast
  qed
  then obtain j where j: "\<bar>of_int k :: rat\<bar> / pow2 (int d - 52) = of_int j"
    by (simp only: abs) blast
  show ?thesis
    by (rule round64_exact [OF nz bin _ _ j]) (use d53 in simp_all)
qed

lemma plus_int:
  "\<bar>x + y\<bar> \<le> 2 ^ 53 \<Longrightarrow> plus_js (ofInt x) (ofInt y) = ofInt (x + y)"
  using round64_int [of "x + y"] by (simp add: ofInt_def)

lemma minus_int:
  "\<bar>x - y\<bar> \<le> 2 ^ 53 \<Longrightarrow> minus_js (ofInt x) (ofInt y) = ofInt (x - y)"
  using round64_int [of "x - y"] by (simp add: ofInt_def minus_js_def negate_def)

text \<open>
  Above \<open>2^53\<close> a sum is rounded: \<open>2^53 + 1\<close> is not a binary64 value, and the tie goes to the
  even significand.
\<close>

lemma plus_rounds:
  "plus_js (Fin (2 ^ 53)) (Fin 1) = Fin (2 ^ 53)"
  "plus_js (Fin (2 ^ 53)) (Fin 2) = Fin (2 ^ 53 + 2)"
  "plus_js (Fin (2 ^ 53)) (Fin 3) = Fin (2 ^ 53 + 4)"
  by code_simp+

section \<open>Properties of the gallery list\<close>

subsection \<open>Sets and ranges\<close>

lemma fold_Set_add: "fold Set_add xs acc = acc @ keepFirst (filter (\<lambda>x. x \<notin> set acc) xs)"
proof (induction xs arbitrary: acc)
  case Nil
  then show ?case by simp
next
  case (Cons x xs)
  show ?case
  proof (cases "x \<in> set acc")
    case True
    then show ?thesis using Cons.IH [of acc] by (simp add: Set_add_def)
  next
    case False
    have "filter (\<lambda>y. y \<notin> set (acc @ [x])) xs
            = filter (\<lambda>y. y \<noteq> x) (filter (\<lambda>y. y \<notin> set acc) xs)"
      by (induction xs) auto
    then show ?thesis using False Cons.IH [of "acc @ [x]"] by (simp add: Set_add_def)
  qed
qed

lemma new_Set_keepFirst: "new_Set xs = keepFirst xs"
  by (simp add: new_Set_def fold_Set_add)

lemma set_keepFirst: "set (keepFirst xs) = set xs"
proof (induction xs rule: keepFirst.induct)
  case 1
  show ?case by simp
next
  case (2 x xs)
  then show ?case by auto
qed

lemma distinct_keepFirst: "distinct (keepFirst xs)"
proof (induction xs rule: keepFirst.induct)
  case 1
  show ?case by simp
next
  case (2 x xs)
  then show ?case by (simp add: set_keepFirst)
qed

lemma map_upt_upto: "map (\<lambda>i. a + int i) [0..<n] = [a..a + int n - 1]"
proof (induction n)
  case 0
  show ?case by simp
next
  case (Suc n)
  have "[a..a + int (Suc n) - 1] = [a..a + int n - 1] @ [a + int n]"
    using upto_rec2 [of a "a + int n"] by simp
  with Suc show ?case by simp
qed

lemma safeStart_int:
  assumes "start (numbered (gallery s)) = ofInt a" and "1 \<le> a"
  shows "safeStart s = ofInt a"
proof -
  have "(of_int a :: rat) \<noteq> 0" using assms(2) by simp
  then show ?thesis
    using assms by (simp add: safeStart_def ofInt_def orNumber_def Math_floor_def Math_max_def)
qed

lemma safeEnd_int:
  assumes "start (numbered (gallery s)) = ofInt a" and "end' (numbered (gallery s)) = ofInt b"
    and "1 \<le> a" and "a \<le> b"
  shows "safeEnd s = ofInt b"
proof -
  have "(of_int b :: rat) \<noteq> 0" using assms(3,4) by simp
  then show ?thesis
    using assms(2,4) safeStart_int [OF assms(1,3)]
    by (simp add: safeEnd_def ofInt_def orNumber_def Math_floor_def Math_max_def)
qed

text \<open>
  Within the integers that are binary64 values and the length an array can have, the
  range is the list of the integers from \<^verbatim>\<open>start\<close> to \<^verbatim>\<open>end\<close>.
\<close>

lemma range_int:
  assumes "start (numbered (gallery s)) = ofInt a" and "end' (numbered (gallery s)) = ofInt b"
    and "1 \<le> a" and "a \<le> b" and "b \<le> 2 ^ 53" and "b - a + 1 \<le> 2 ^ 32 - 1"
  shows "range' s = Some (map ofInt [a..b])"
proof -
  have "minus_js (ofInt b) (ofInt a) = ofInt (b - a)"
    using assms(3-5) by (intro minus_int) simp
  moreover have "plus_js (ofInt (b - a)) (Fin 1) = ofInt (b - a + 1)"
    using plus_int [of "b - a" 1] assms(3-5) by (simp add: ofInt_def)
  ultimately have len: "toLength (plus_js (minus_js (ofInt b) (ofInt a)) (Fin 1)) = b - a + 1"
    using assms(4,6) by (simp add: toLength_def ofInt_def)
  have elem: "plus_js (ofInt a) (Fin (of_nat i)) = ofInt (a + int i)"
    if "i \<in> set [0..<nat (b - a + 1)]" for i
  proof -
    from that have "a + int i \<le> b" by simp
    with assms(3,5) have "\<bar>a + int i\<bar> \<le> 2 ^ 53" by simp
    from plus_int [OF this] show ?thesis by (simp add: ofInt_def)
  qed
  have "range' s = Some (map (\<lambda>i. plus_js (ofInt a) (Fin (of_nat i))) [0..<nat (b - a + 1)])"
    using safeStart_int [OF assms(1,3)] safeEnd_int [OF assms(1-4)] assms(6)
    by (simp add: range'_def Array_from_length_def len)
  also have "map (\<lambda>i. plus_js (ofInt a) (Fin (of_nat i))) [0..<nat (b - a + 1)]
               = map (\<lambda>i. ofInt (a + int i)) [0..<nat (b - a + 1)]"
    using elem by (intro map_cong refl)
  also have "\<dots> = map ofInt (map (\<lambda>i. a + int i) [0..<nat (b - a + 1)])" by simp
  also have "\<dots> = map ofInt [a..b]" using assms(4) by (simp add: map_upt_upto del: map_map)
  finally show ?thesis .
qed

lemma lt_ofInt: "lt_js (ofInt x) (ofInt y) = (x < y)"
  by (auto simp: lt_js_def ofInt_def)

lemma sorted_ofInt: "sorted_wrt lt_js (map ofInt [a..b])"
proof -
  have "sorted_wrt (<) [a..b]" by (simp add: sorted_wrt_upto)
  then show ?thesis
    by (simp add: sorted_wrt_map lt_ofInt)
qed

lemma inj_ofInt: "inj ofInt"
  by (simp add: inj_on_def ofInt_def)

lemma numberToString_int:
  "0 \<le> k \<Longrightarrow> k \<le> 2 ^ 53 \<Longrightarrow> numberToString fmt (ofInt k) = decimal (nat k)"
proof -
  assume k: "0 \<le> k" "k \<le> 2 ^ 53"
  have "(of_int k :: rat) \<le> of_int (2 ^ 53)" using k(2) by (simp only: of_int_le_iff)
  then have "\<bar>of_int k :: rat\<bar> \<le> 2 ^ 53" using k(1) by simp
  then show ?thesis using k(1) by (simp add: numberToString_def ofInt_def)
qed

lemma decimal_digits:
  "decimal (Suc 0) = ''1''" "decimal 1 = ''1''" "decimal 2 = ''2''" "decimal 3 = ''3''"
  "decimal 5 = ''5''" "decimal 7 = ''7''"
  by (simp_all add: decimal.simps digitChar_def)

lemma upto_1_3: "[1..3::int] = [1, 2, 3]"
  by (simp add: upto.simps)

lemma scenario_fields:
  "mode (gallery (scenario e ord)) = Numbered"
  "order (numbered (gallery (scenario e ord))) = ord"
  "start (numbered (gallery (scenario e ord))) = ofInt 1"
  "end' (numbered (gallery (scenario e ord))) = ofInt 3"
  "extension (numbered (gallery (scenario e ord))) = e"
  "folder (numbered (gallery (scenario e ord))) = ''/gallery''"
  "assetVersion (gallery (scenario e ord)) = ofInt 1"
  by (simp_all add: scenario_def DEFAULT_SITE_SETTINGS_def ofInt_def)

subsection \<open>Natural order\<close>

lemma ext_cases:
  "ext s = (let e = extension (numbered (gallery s)) in
            if e = [] then ''jpeg'' else if hd e = CHR ''.'' then tl e else e)"
  by (cases "extension (numbered (gallery s))") (simp_all add: ext_def orString_def stripLeadingDot_def)

lemma orderedNumbers_natural:
  assumes "order (numbered (gallery s)) = []"
    and "start (numbered (gallery s)) = ofInt a" and "end' (numbered (gallery s)) = ofInt b"
    and "1 \<le> a" and "a \<le> b" and "b \<le> 2 ^ 53" and "b - a + 1 \<le> 2 ^ 32 - 1"
  shows "orderedNumbers s = Some (map ofInt [a..b])"
  using assms(1) by (simp add: orderedNumbers_def manual_def Let_def range_int [OF assms(2-7)])

lemma imageUrlOf_int:
  "0 \<le> n \<Longrightarrow> n \<le> 2 ^ 53 \<Longrightarrow>
     imageUrlOf fmt s (ofInt n)
       = folder (numbered (gallery s)) @ ''/'' @ decimal (nat n) @ ''.'' @ ext s
           @ ''?v='' @ numberToString fmt (assetVersion (gallery s))"
  by (simp add: imageUrlOf_def numberToString_int)

text \<open>
  C1, as amended. For all integers \<open>a\<close>, \<open>b\<close> with \<open>1 \<le> a \<le> b \<le> 2^53\<close> and
  \<open>b - a + 1 \<le> 2^32 - 1\<close> as \<^verbatim>\<open>start\<close> and \<^verbatim>\<open>end\<close>, numbered mode with an empty order returns
  \<open>b - a + 1\<close> entries, for the numbers of \<open>[a, b]\<close> in strictly ascending order; the entry for
  \<open>n\<close> is \<^verbatim>\<open>{folder}/{n}.{ext}?v={assetVersion}\<close>, with \<open>n\<close> in decimal digits, where \<open>ext\<close> is the
  configured extension without one leading dot, and \<^verbatim>\<open>jpeg\<close> when the configured extension
  is empty. When the configured extension is not empty and has no leading dot, the
  entries are those of the specification's template. The scenario of the specification
  yields its three entries.
\<close>

theorem numbered_natural_order:
  assumes "mode (gallery s) = Numbered"
    and "order (numbered (gallery s)) = []"
    and "start (numbered (gallery s)) = ofInt a"
    and "end' (numbered (gallery s)) = ofInt b"
    and "1 \<le> a" and "a \<le> b" and "b \<le> 2 ^ 53" and "b - a + 1 \<le> 2 ^ 32 - 1"
  shows "buildGalleryImageList fmt s =
           Some (map (\<lambda>n. folder (numbered (gallery s)) @ ''/'' @ decimal (nat n) @ ''.''
                      @ ext s @ ''?v='' @ numberToString fmt (assetVersion (gallery s))) [a..b])
         \<and> ext s = (let e = extension (numbered (gallery s)) in
                     if e = [] then ''jpeg'' else if hd e = CHR ''.'' then tl e else e)
         \<and> map_option length (buildGalleryImageList fmt s) = Some (nat (b - a + 1))
         \<and> (\<exists>ns. orderedNumbers s = Some ns \<and> ns = map ofInt [a..b] \<and> sorted_wrt lt_js ns)
         \<and> (extension (numbered (gallery s)) \<noteq> [] \<and> hd (extension (numbered (gallery s))) \<noteq> CHR ''.''
              \<longrightarrow> buildGalleryImageList fmt s = Some (map (\<lambda>n. specImageUrl fmt s (ofInt n)) [a..b]))
         \<and> buildGalleryImageList fmt (scenario ''jpeg'' [])
             = Some [''/gallery/1.jpeg?v=1'', ''/gallery/2.jpeg?v=1'', ''/gallery/3.jpeg?v=1'']"
proof -
  have nums: "orderedNumbers s = Some (map ofInt [a..b])"
    by (rule orderedNumbers_natural [OF assms(2-8)])
  have entry: "imageUrlOf fmt s (ofInt n)
                 = folder (numbered (gallery s)) @ ''/'' @ decimal (nat n) @ ''.'' @ ext s
                     @ ''?v='' @ numberToString fmt (assetVersion (gallery s))"
    if "n \<in> set [a..b]" for n
    using that assms(5,7) by (intro imageUrlOf_int) simp_all
  have "map (imageUrlOf fmt s) (map ofInt [a..b])
          = map (\<lambda>n. imageUrlOf fmt s (ofInt n)) [a..b]" by simp
  also have "\<dots> = map (\<lambda>n. folder (numbered (gallery s)) @ ''/'' @ decimal (nat n) @ ''.'' @ ext s
                     @ ''?v='' @ numberToString fmt (assetVersion (gallery s))) [a..b]"
    using entry by (intro map_cong refl)
  finally have urls: "map (imageUrlOf fmt s) (map ofInt [a..b])
          = map (\<lambda>n. folder (numbered (gallery s)) @ ''/'' @ decimal (nat n) @ ''.'' @ ext s
                     @ ''?v='' @ numberToString fmt (assetVersion (gallery s))) [a..b]" .
  have build: "buildGalleryImageList fmt s =
           Some (map (\<lambda>n. folder (numbered (gallery s)) @ ''/'' @ decimal (nat n) @ ''.''
                      @ ext s @ ''?v='' @ numberToString fmt (assetVersion (gallery s))) [a..b])"
    using assms(1) by (simp only: buildGalleryImageList_def nums option.map urls) simp
  have len: "map_option length (buildGalleryImageList fmt s) = Some (nat (b - a + 1))"
    by (simp add: build)
  have bare: "buildGalleryImageList fmt s = Some (map (\<lambda>n. specImageUrl fmt s (ofInt n)) [a..b])"
    if e: "extension (numbered (gallery s)) \<noteq> []" "hd (extension (numbered (gallery s))) \<noteq> CHR ''.''"
  proof -
    have "ext s = extension (numbered (gallery s))" using e by (simp add: ext_cases Let_def)
    then have "specImageUrl fmt s (ofInt n) = imageUrlOf fmt s (ofInt n)" for n
      by (simp add: specImageUrl_def imageUrlOf_def)
    then show ?thesis
      using assms(1) by (simp add: buildGalleryImageList_def nums comp_def)
  qed
  have "orderedNumbers (scenario ''jpeg'' []) = Some (map ofInt [1..3])"
    by (rule orderedNumbers_natural) (simp_all add: scenario_fields)
  then have scen: "buildGalleryImageList fmt (scenario ''jpeg'' [])
             = Some [''/gallery/1.jpeg?v=1'', ''/gallery/2.jpeg?v=1'', ''/gallery/3.jpeg?v=1'']"
    by (simp add: buildGalleryImageList_def imageUrlOf_def scenario_fields upto_1_3 ext_cases
        numberToString_int decimal_digits)
  have asc: "\<exists>ns. orderedNumbers s = Some ns \<and> ns = map ofInt [a..b] \<and> sorted_wrt lt_js ns"
    using nums sorted_ofInt [of a b] by simp
  show ?thesis
    using build ext_cases [of s] len asc bare scen by simp
qed

theorem numbered_natural_order_witness:
  "buildGalleryImageList plainFormat (scenario ''jpeg'' [])
     = Some [''/gallery/1.jpeg?v=1'', ''/gallery/2.jpeg?v=1'', ''/gallery/3.jpeg?v=1'']
   \<and> map_option length (buildGalleryImageList plainFormat (scenario ''jpeg'' [])) = Some 3
   \<and> orderedNumbers (scenario ''jpeg'' []) = Some [ofInt 1, ofInt 2, ofInt 3]"
  using numbered_natural_order [of "scenario ''jpeg'' []" 1 3 plainFormat]
  by (simp add: scenario_fields upto_1_3 numberToString_int decimal_digits)

text \<open>
  With an empty extension the code puts \<^verbatim>\<open>jpeg\<close>, and with the extension stored as \<^verbatim>\<open>.jpeg\<close>
  it drops the dot; the specification's template has the stored extension in both cases.
  From \<^verbatim>\<open>start = 2^53\<close> to \<^verbatim>\<open>end = 2^53 + 2\<close> the sum \<^verbatim>\<open>safeStart + 1\<close> is rounded to \<open>2^53\<close>: the
  list has \<open>2^53\<close> twice and not \<open>2^53 + 1\<close>. From \<^verbatim>\<open>start = 1\<close> to \<^verbatim>\<open>end = 2^32\<close> the range is too
  long for an array and the function throws.
\<close>

theorem numbered_template_counterexample:
  "buildGalleryImageList plainFormat (scenario [] [])
     = Some [''/gallery/1.jpeg?v=1'', ''/gallery/2.jpeg?v=1'', ''/gallery/3.jpeg?v=1'']
   \<and> map (\<lambda>n. specImageUrl plainFormat (scenario [] []) (ofInt n)) [1..3]
     = [''/gallery/1.?v=1'', ''/gallery/2.?v=1'', ''/gallery/3.?v=1'']
   \<and> buildGalleryImageList plainFormat (scenario ''.jpeg'' [])
     = Some [''/gallery/1.jpeg?v=1'', ''/gallery/2.jpeg?v=1'', ''/gallery/3.jpeg?v=1'']
   \<and> map (\<lambda>n. specImageUrl plainFormat (scenario ''.jpeg'' []) (ofInt n)) [1..3]
     = [''/gallery/1..jpeg?v=1'', ''/gallery/2..jpeg?v=1'', ''/gallery/3..jpeg?v=1'']
   \<and> orderedNumbers (spanScenario (Fin (2 ^ 53)) (Fin (2 ^ 53 + 2)) [])
     = Some [Fin (2 ^ 53), Fin (2 ^ 53), Fin (2 ^ 53 + 2)]
   \<and> buildGalleryImageList plainFormat (spanScenario (Fin 1) (Fin (2 ^ 32)) []) = None"
  by code_simp

subsection \<open>Manual order\<close>

lemma baseOrdered_spec:
  assumes "start (numbered (gallery s)) = ofInt a" and "end' (numbered (gallery s)) = ofInt b"
    and "1 \<le> a" and "a \<le> b" and "order (numbered (gallery s)) \<noteq> []"
  shows "baseOrdered s
           = keepFirst (filter (inRangeInteger a b) (map Math_floor (order (numbered (gallery s)))))"
proof -
  have "(Number_isFinite n \<and> ge_js n (ofInt a) \<and> le_js n (ofInt b)) = inRangeInteger a b n"
    if "n \<in> set (map Math_floor (order (numbered (gallery s))))" for n
  proof -
    from that obtain m where "n = Math_floor m" by auto
    then show ?thesis
      by (cases m) (auto simp: Math_floor_def Number_isFinite_def ge_js_def ofInt_def
          inRangeInteger_def)
  qed
  then have "filter (\<lambda>n. Number_isFinite n \<and> ge_js n (ofInt a) \<and> le_js n (ofInt b))
                (map Math_floor (order (numbered (gallery s))))
             = filter (inRangeInteger a b) (map Math_floor (order (numbered (gallery s))))"
    by (intro filter_cong refl)
  then show ?thesis
    using assms(5) safeStart_int [OF assms(1,3)] safeEnd_int [OF assms(1-4)]
    by (simp add: baseOrdered_def manual_def new_Set_keepFirst)
qed

lemma orderedNumbers_spec:
  assumes "start (numbered (gallery s)) = ofInt a" and "end' (numbered (gallery s)) = ofInt b"
    and "1 \<le> a" and "a \<le> b" and "b \<le> 2 ^ 53" and "b - a + 1 \<le> 2 ^ 32 - 1"
    and "order (numbered (gallery s)) \<noteq> []"
  shows "orderedNumbers s
           = Some (specOrderedNumbers a b (map Math_floor (order (numbered (gallery s)))))"
proof -
  have "set (new_Set (baseOrdered s)) = set (baseOrdered s)"
    by (simp add: new_Set_keepFirst set_keepFirst)
  then show ?thesis
    using assms(7)
    by (simp add: orderedNumbers_def specOrderedNumbers_def Let_def manual_def Set_has_def
        range_int [OF assms(1-6)] baseOrdered_spec [OF assms(1-4,7)])
qed

lemma inRangeInteger_iff:
  "inRangeInteger a b n \<longleftrightarrow> (\<exists>k. a \<le> k \<and> k \<le> b \<and> n = ofInt k)"
proof
  assume "inRangeInteger a b n"
  then obtain q where q: "n = Fin q" "of_int \<lfloor>q\<rfloor> = q" "a \<le> \<lfloor>q\<rfloor>" "\<lfloor>q\<rfloor> \<le> b"
    unfolding inRangeInteger_def by (cases n) simp_all
  have "n = ofInt \<lfloor>q\<rfloor>" by (simp only: ofInt_def q(1) q(2))
  with q(3,4) show "\<exists>k. a \<le> k \<and> k \<le> b \<and> n = ofInt k" by blast
next
  assume "\<exists>k. a \<le> k \<and> k \<le> b \<and> n = ofInt k"
  then show "inRangeInteger a b n" by (auto simp: inRangeInteger_def ofInt_def)
qed

lemma specOrderedNumbers_set: "set (specOrderedNumbers a b ord) = ofInt ` {a..b}"
proof -
  have "set (filter (inRangeInteger a b) ord) \<subseteq> ofInt ` {a..b}"
    by (auto simp: inRangeInteger_iff)
  then show ?thesis
    by (auto simp: specOrderedNumbers_def Let_def set_keepFirst)
qed

lemma specOrderedNumbers_distinct: "distinct (specOrderedNumbers a b ord)"
proof -
  have "distinct (map ofInt [a..b])"
    by (simp add: distinct_map inj_on_subset [OF inj_ofInt])
  then show ?thesis
    by (auto simp: specOrderedNumbers_def Let_def distinct_keepFirst)
qed

lemma specOrderedNumbers_length:
  assumes "a \<le> b"
  shows "length (specOrderedNumbers a b ord) = nat (b - a + 1)"
proof -
  have "length (specOrderedNumbers a b ord) = card (set (specOrderedNumbers a b ord))"
    by (simp add: distinct_card specOrderedNumbers_distinct)
  also have "\<dots> = card {a..b}"
    by (simp add: specOrderedNumbers_set card_image inj_on_subset [OF inj_ofInt])
  finally show ?thesis by simp
qed

lemma Math_floor_fixed: "\<forall>n\<in>set ord. Math_floor n = n \<Longrightarrow> map Math_floor ord = ord"
  by (induction ord) auto

text \<open>
  C2, as amended. For every non-empty order list and all integers \<open>a\<close>, \<open>b\<close> with
  \<open>1 \<le> a \<le> b \<le> 2^53\<close> and \<open>b - a + 1 \<le> 2^32 - 1\<close> as \<^verbatim>\<open>start\<close> and \<^verbatim>\<open>end\<close>, numbered mode first
  rounds every entry of the order list down (\<^verbatim>\<open>Math.floor\<close>), then takes the entries that
  are finite integers within \<open>[a, b]\<close>, deduplicated keeping the first occurrence, and
  appends every remaining integer of the range in ascending order. Every integer of the
  range appears exactly once and the list has \<open>b - a + 1\<close> entries. When the order list
  holds integers only (rounding down changes no entry), this is the specification's
  order.
\<close>

theorem numbered_manual_order:
  assumes "mode (gallery s) = Numbered"
    and "order (numbered (gallery s)) \<noteq> []"
    and "start (numbered (gallery s)) = ofInt a"
    and "end' (numbered (gallery s)) = ofInt b"
    and "1 \<le> a" and "a \<le> b" and "b \<le> 2 ^ 53" and "b - a + 1 \<le> 2 ^ 32 - 1"
  shows "orderedNumbers s
           = Some (specOrderedNumbers a b (map Math_floor (order (numbered (gallery s)))))
         \<and> (\<exists>ns. orderedNumbers s = Some ns
               \<and> distinct ns
               \<and> set ns = ofInt ` {a..b}
               \<and> length ns = nat (b - a + 1)
               \<and> buildGalleryImageList fmt s = Some (map (imageUrlOf fmt s) ns))
         \<and> ((\<forall>n\<in>set (order (numbered (gallery s))). Math_floor n = n)
              \<longrightarrow> orderedNumbers s = Some (specOrderedNumbers a b (order (numbered (gallery s)))))"
proof -
  let ?ord = "order (numbered (gallery s))"
  let ?ns = "specOrderedNumbers a b (map Math_floor ?ord)"
  have nums: "orderedNumbers s = Some ?ns"
    by (rule orderedNumbers_spec [OF assms(3-8) assms(2)])
  have build: "buildGalleryImageList fmt s = Some (map (imageUrlOf fmt s) ?ns)"
    using assms(1) by (simp add: buildGalleryImageList_def nums)
  have len: "length ?ns = nat (b - a + 1)"
    using assms(6) by (rule specOrderedNumbers_length)
  have "orderedNumbers s = Some ?ns \<and> distinct ?ns \<and> set ?ns = ofInt ` {a..b}
          \<and> length ?ns = nat (b - a + 1)
          \<and> buildGalleryImageList fmt s = Some (map (imageUrlOf fmt s) ?ns)"
    using nums build len by (simp add: specOrderedNumbers_distinct specOrderedNumbers_set)
  then have ex: "\<exists>ns. orderedNumbers s = Some ns \<and> distinct ns \<and> set ns = ofInt ` {a..b}
          \<and> length ns = nat (b - a + 1)
          \<and> buildGalleryImageList fmt s = Some (map (imageUrlOf fmt s) ns)"
    by (rule exI)
  have fixed: "orderedNumbers s = Some (specOrderedNumbers a b ?ord)"
    if "\<forall>n\<in>set ?ord. Math_floor n = n"
    using that by (simp add: nums Math_floor_fixed)
  show ?thesis
    using nums ex fixed by blast
qed

text \<open>The scenario of the specification: the order \<open>[3, 1]\<close> over the range \<open>[1, 3]\<close>.\<close>

theorem numbered_manual_order_witness:
  "orderedNumbers (scenario ''jpeg'' [Fin 3, Fin 1]) = Some [Fin 3, Fin 1, Fin 2]
   \<and> buildGalleryImageList plainFormat (scenario ''jpeg'' [Fin 3, Fin 1])
       = Some [''/gallery/3.jpeg?v=1'', ''/gallery/1.jpeg?v=1'', ''/gallery/2.jpeg?v=1'']"
proof -
  have fl: "Math_floor (Fin 3) = Fin 3" "Math_floor (Fin 1) = Fin 1"
    by (simp_all add: Math_floor_def)
  have spec: "specOrderedNumbers 1 3 [Fin 3, Fin 1] = [Fin 3, Fin 1, Fin 2]"
    by code_simp
  have u3: "imageUrlOf plainFormat (scenario ''jpeg'' [Fin 3, Fin 1]) (Fin 3) = ''/gallery/3.jpeg?v=1''"
    by code_simp
  have u1: "imageUrlOf plainFormat (scenario ''jpeg'' [Fin 3, Fin 1]) (Fin 1) = ''/gallery/1.jpeg?v=1''"
    by code_simp
  have u2: "imageUrlOf plainFormat (scenario ''jpeg'' [Fin 3, Fin 1]) (Fin 2) = ''/gallery/2.jpeg?v=1''"
    by code_simp
  show ?thesis
    using numbered_manual_order [of "scenario ''jpeg'' [Fin 3, Fin 1]" 1 3 plainFormat]
    by (auto simp: scenario_fields fl spec u1 u2 u3)
qed

text \<open>
  The order \<open>[2.5]\<close> over the range \<open>[1, 3]\<close>: the code rounds the entry down to \<open>2\<close> and puts
  it first; filtering the order list to integers drops it. The order \<open>[2^53 + 2]\<close> over
  the range from \<open>2^53\<close> to \<open>2^53 + 2\<close>: the rounded range has \<open>2^53\<close> twice, and so has the
  list.
\<close>

theorem numbered_manual_order_counterexample:
  "orderedNumbers (scenario ''jpeg'' [Fin (5 / 2)]) = Some [Fin 2, Fin 1, Fin 3]
   \<and> specOrderedNumbers 1 3 [Fin (5 / 2)] = [Fin 1, Fin 2, Fin 3]
   \<and> orderedNumbers (spanScenario (Fin (2 ^ 53)) (Fin (2 ^ 53 + 2)) [Fin (2 ^ 53 + 2)])
       = Some [Fin (2 ^ 53 + 2), Fin (2 ^ 53), Fin (2 ^ 53)]"
  by code_simp

subsection \<open>Custom mode\<close>

text \<open>
  C8. In custom mode the list is \<^verbatim>\<open>customImages\<close> without its empty entries, in the stored
  order, every other entry as it is stored.
\<close>

theorem custom_mode_list:
  assumes "mode (gallery s) = Custom"
  shows "buildGalleryImageList fmt s = Some (filter (\<lambda>u. u \<noteq> []) (customImages (gallery s)))
         \<and> map_option set (buildGalleryImageList fmt s) = Some (set (customImages (gallery s)) - {[]})"
  using assms by (auto simp: buildGalleryImageList_def)

theorem custom_mode_list_witness:
  "buildGalleryImageList plainFormat customScenario
     = Some [''https://cdn.x.com/b.png?v=3'', ''/gallery/a.jpeg'']"
  using custom_mode_list [of customScenario plainFormat]
  by (simp add: customScenario_def)

section \<open>Properties of the featured images\<close>


lemma startsWith_Cons: "startsWith (c # s) (d # p) = (c = d \<and> startsWith s p)"
  by (simp add: startsWith_def)

lemma startsWith_Nil: "startsWith s []" "startsWith [] (d # p) = False"
  by (simp_all add: startsWith_def)







































section \<open>Properties of the specials\<close>

text \<open>
  C7. A promotion passes the filter of the Specials list if and only if its trimmed title
  is not empty and its \<^verbatim>\<open>validUntil\<close> is empty, or does not parse to a time stamp, or parses
  to a time stamp that is not before the current time. So a promotion with a past date is
  excluded, one with a title and an empty or future date is included, one with an empty
  title is excluded whatever its date, and every promotion the section lists is a stored
  promotion that passes the filter.
\<close>

theorem promotion_display_filter:
  "(specialsFilter now getTime x \<longleftrightarrow>
      trim (title x) \<noteq> []
      \<and> (validUntil x = [] \<or> getTime (validUntil x) = None
           \<or> (\<exists>t. getTime (validUntil x) = Some t \<and> now \<le> t)))
   \<and> (validUntil x \<noteq> [] \<and> getTime (validUntil x) = Some t \<and> t < now
        \<longrightarrow> \<not> specialsFilter now getTime x)
   \<and> (trim (title x) \<noteq> [] \<and> (validUntil x = [] \<or> (getTime (validUntil x) = Some t \<and> now \<le> t))
        \<longrightarrow> specialsFilter now getTime x)
   \<and> (trim (title x) = [] \<longrightarrow> \<not> specialsFilter now getTime x)
   \<and> (\<forall>p \<in> set (specialsItems now getTime settings).
         p \<in> set (items (promotions settings)) \<and> specialsFilter now getTime p)"
proof -
  have shown: "p \<in> set (items (promotions settings)) \<and> specialsFilter now getTime p"
    if "p \<in> set (specialsItems now getTime settings)" for p
  proof -
    from that have "p \<in> set (filter (specialsFilter now getTime) (items (promotions settings)))"
      by (auto simp: specialsItems_def split: if_splits dest: in_set_takeD)
    then show ?thesis by simp
  qed
  have iff: "specialsFilter now getTime x \<longleftrightarrow>
      trim (title x) \<noteq> []
      \<and> (validUntil x = [] \<or> getTime (validUntil x) = None
           \<or> (\<exists>t. getTime (validUntil x) = Some t \<and> now \<le> t))"
    by (auto simp: specialsFilter_def split: option.splits)
  have past: "\<not> specialsFilter now getTime x"
    if "validUntil x \<noteq> []" "getTime (validUntil x) = Some t" "t < now"
    using that by (simp add: specialsFilter_def)
  have future: "specialsFilter now getTime x"
    if "trim (title x) \<noteq> []" "validUntil x = [] \<or> (getTime (validUntil x) = Some t \<and> now \<le> t)"
    using that by (auto simp: specialsFilter_def)
  have untitled: "\<not> specialsFilter now getTime x" if "trim (title x) = []"
    using that by (simp add: specialsFilter_def)
  show ?thesis
    using shown iff past future untitled by blast
qed

theorem promotion_display_filter_witness:
  "\<not> specialsFilter 1700000000000 sampleTime (promo ''Spring special'' ''2020-01-01'')
   \<and> specialsFilter 1700000000000 sampleTime (promo ''Spring special'' ''2999-01-01'')
   \<and> specialsFilter 1700000000000 sampleTime (promo ''Spring special'' [])
   \<and> specialsFilter 1700000000000 sampleTime (promo ''Spring special'' ''soon'')
   \<and> \<not> specialsFilter 1700000000000 sampleTime (promo ''  '' ''2999-01-01'')
   \<and> specialsItems 1700000000000 sampleTime
        (withPromotions True [promo ''Spring special'' ''2020-01-01'', promo ''Spring special'' []])
       = [promo ''Spring special'' []]"
proof -
  have t: "trim ''Spring special'' = ''Spring special''" "trim ''  '' = []"
    by (simp_all add: trim_def isWhiteSpace_def)
  have 1: "\<not> specialsFilter 1700000000000 sampleTime (promo ''Spring special'' ''2020-01-01'')"
    using promotion_display_filter [of 1700000000000 sampleTime "promo ''Spring special'' ''2020-01-01''" 1577836800000]
    by (simp add: promo_def sampleTime_def)
  have 2: "specialsFilter 1700000000000 sampleTime (promo ''Spring special'' ''2999-01-01'')"
    using promotion_display_filter [of 1700000000000 sampleTime "promo ''Spring special'' ''2999-01-01''" 32472144000000]
    by (simp add: promo_def sampleTime_def t)
  have 3: "specialsFilter 1700000000000 sampleTime (promo ''Spring special'' [])"
    using promotion_display_filter [of 1700000000000 sampleTime "promo ''Spring special'' []" 0]
    by (simp add: promo_def sampleTime_def t)
  have 4: "specialsFilter 1700000000000 sampleTime (promo ''Spring special'' ''soon'')"
    using promotion_display_filter [of 1700000000000 sampleTime "promo ''Spring special'' ''soon''" 0]
    by (simp add: promo_def sampleTime_def t)
  have 5: "\<not> specialsFilter 1700000000000 sampleTime (promo ''  '' ''2999-01-01'')"
    using promotion_display_filter [of 1700000000000 sampleTime "promo ''  '' ''2999-01-01''" 0]
    by (simp add: promo_def sampleTime_def t)
  have 6: "specialsItems 1700000000000 sampleTime
        (withPromotions True [promo ''Spring special'' ''2020-01-01'', promo ''Spring special'' []])
       = [promo ''Spring special'' []]"
    using 1 3 by (simp add: specialsItems_def withPromotions_def)
  show ?thesis using 1 2 3 4 5 6 by simp
qed

text \<open>
  C10, as amended. The Specials section lists at most 12 promotions. When promotions are
  enabled the list is the stored promotions that pass the filter, in the stored order, cut
  after the first 12; when promotions are disabled the list is empty.
\<close>

theorem specials_at_most_twelve:
  "length (specialsItems now getTime settings) \<le> 12
   \<and> (enabled (promotions settings) \<longrightarrow>
        specialsItems now getTime settings
          = take 12 (filter (specialsFilter now getTime) (items (promotions settings))))
   \<and> (\<not> enabled (promotions settings) \<longrightarrow> specialsItems now getTime settings = [])"
  by (simp add: specialsItems_def)

theorem specials_at_most_twelve_witness:
  "specialsItems 1700000000000 sampleTime (withPromotions True (replicate 13 (promo ''Spring special'' [])))
     = replicate 12 (promo ''Spring special'' [])
   \<and> specialsItems 1700000000000 sampleTime (withPromotions False (replicate 13 (promo ''Spring special'' [])))
     = []"
proof -
  have e: "specialsFilter 1700000000000 sampleTime (promo ''Spring special'' [])"
    by (simp add: specialsFilter_def promo_def trim_def isWhiteSpace_def)
  have "take 12 (filter (specialsFilter 1700000000000 sampleTime) (replicate 13 (promo ''Spring special'' [])))
          = replicate 12 (promo ''Spring special'' [])"
    using e by simp
  then show ?thesis
    using specials_at_most_twelve [of 1700000000000 sampleTime "withPromotions True (replicate 13 (promo ''Spring special'' []))"]
      specials_at_most_twelve [of 1700000000000 sampleTime "withPromotions False (replicate 13 (promo ''Spring special'' []))"]
    by (simp add: withPromotions_def)
qed

text \<open>
  With promotions disabled, a stored promotion that passes the filter is not listed.
\<close>

theorem specials_disabled_counterexample:
  "specialsFilter 1700000000000 sampleTime (promo ''Spring special'' [])
   \<and> take 12 (filter (specialsFilter 1700000000000 sampleTime)
        (items (promotions (withPromotions False [promo ''Spring special'' []]))))
       = [promo ''Spring special'' []]
   \<and> specialsItems 1700000000000 sampleTime (withPromotions False [promo ''Spring special'' []]) = []"
  by (simp add: specialsItems_def specialsFilter_def withPromotions_def promo_def trim_def isWhiteSpace_def)

section \<open>Properties of merging and loading\<close>

lemma member_not_nullish: "\<not> nullish v \<Longrightarrow> member v k = Some (optMember v k)"
  by (cases v) (simp_all add: member_def optMember_def nullish_def)

lemma truthy_not_nullish: "truthy v \<Longrightarrow> \<not> nullish v"
  by (auto simp: truthy_def nullish_def)

lemma optMember_nullish: "nullish v \<Longrightarrow> optMember v k = VUndefined"
  by (auto simp: nullish_def optMember_def member_def)

lemma member_defined: "optMember v k \<noteq> VUndefined \<Longrightarrow> member v k = Some (optMember v k)"
  using optMember_nullish [of v k] member_not_nullish [of v k] by blast

lemma guarded_member:
  "Array_isArray (optMember v k) \<Longrightarrow> member v k = Some (optMember v k)"
  "typeof_number (optMember v k) \<Longrightarrow> member v k = Some (optMember v k)"
  by (rule member_defined, auto simp: Array_isArray_def typeof_number_def)+

lemma guarded_member2:
  assumes "Array_isArray (optMember (optMember v k) k')"
  shows "member v k = Some (optMember v k)"
proof (rule member_defined)
  have "\<not> nullish (optMember v k)"
    using assms optMember_nullish [of "optMember v k" k'] by (auto simp: Array_isArray_def)
  then show "optMember v k \<noteq> VUndefined" by (simp add: nullish_def)
qed

lemma mergeSettings_truthy:
  assumes "truthy s"
  shows "mergeSettings s n = Some (mergedObject s n, n + 9)"
proof -
  have m: "member s k = Some (optMember s k)" for k
    using assms by (simp add: member_not_nullish truthy_not_nullish)
  show ?thesis
    using assms
    by (simp add: mergeSettings_def mergedObject_def Let_def m guarded_member guarded_member2)
qed

lemma map_of_setProperty:
  "map_of (setProperty k v fs) k' = (if k' = k then Some v else map_of fs k')"
  by (induction fs) auto

lemma lookup_setProperty:
  "lookup (setProperty k v fs) k' = (if k' = k then v else lookup fs k')"
  by (simp add: lookup_def map_of_setProperty)

lemma present_fold_setProperty:
  "map_of fs k \<noteq> None \<Longrightarrow> map_of (fold (\<lambda>(k, x). setProperty k x) ps fs) k \<noteq> None"
  by (induction ps arbitrary: fs) (auto simp: map_of_setProperty)

lemma present_spreadOrEmpty:
  "map_of fs k \<noteq> None \<Longrightarrow> map_of (spreadOrEmpty fs v) k \<noteq> None"
  using present_fold_setProperty [of fs k "ownEntries v"]
  by (auto simp: spreadOrEmpty_def spread_def)

lemma spreadOrEmpty_nullish: "nullish v \<Longrightarrow> spreadOrEmpty fs v = fs"
  by (simp add: spreadOrEmpty_def)

lemma theMember_object [simp]: "theMember (VObject a fs) k = lookup fs k"
  by (simp add: theMember_def)

lemma lookup_Cons [simp]: "lookup ((k, v) # fs) k' = (if k' = k then v else lookup fs k')"
  by (simp add: lookup_def)

lemma lookup_Nil [simp]: "lookup [] k = VUndefined"
  by (simp add: lookup_def)

lemma DEFAULT_OBJECT_eq:
  "DEFAULT_OBJECT =
    VObject 0
      [(''contact'',
          VObject 1
            [(''addressLines'',
                VArray 2
                  [VString ''248 Ben Viljoen St'', VString ''Pretoria North, Pretoria, 0116'',
                   VString ''South Africa'']),
             (''mapUrl'', VString (mapUrl (contact DEFAULT_SITE_SETTINGS))),
             (''phoneDisplay'', VString ''+27 69 288 8445''),
             (''phoneTel'', VString ''+27692888445''),
             (''whatsappDigits'', VString ''27692888445''),
             (''email'', VString ''info@berlybeauty.co.za''),
             (''hours'', VString ''Mon - Sun: 7:00 AM - 7:00 PM'')]),
       (''socials'',
          VObject 3
            [(''instagramUrl'', VString (instagramUrl (socials DEFAULT_SITE_SETTINGS))),
             (''facebookUrl'', VString ''https://www.facebook.com/share/1HRogBAxNy/'')]),
       (''media'',
          VObject 4
            [(''heroVideoUrl'', VString ''/gallery/1.mp4''),
             (''heroPosterUrl'', VString ''/gallery/1.jpeg''),
             (''heroVideoFit'', VString ''cover''),
             (''heroVideoPosition'', VString ''50% 15%'')]),
       (''promotions'', VObject 5 [(''enabled'', VBool True), (''items'', VArray 6 [])]),
       (''gallery'',
          VObject 7
            [(''assetVersion'', VNumber (Fin 1)),
             (''mode'', VString ''numbered''),
             (''initialCount'', VNumber (Fin 11)),
             (''pageSize'', VNumber (Fin 12)),
             (''tileFit'', VString ''cover''),
             (''featuredNails'',
                VObject 8
                  [(''enabled'', VBool True),
                   (''title'', VString ''Nails Designs''),
                   (''imageUrls'',
                      VArray 9
                        [VString ''/gallery/nails1.jpeg'', VString ''/gallery/nails2.jpeg'',
                         VString ''/gallery/nails3.jpeg''])]),
             (''featuredVideo'',
                VObject 10
                  [(''enabled'', VBool False),
                   (''url'', VString ''/gallery/nails.mp4''),
                   (''posterUrl'', VString ''/gallery/nails.jpeg''),
                   (''title'', VString ''Nails'')]),
             (''numbered'',
                VObject 11
                  [(''folder'', VString ''/gallery''),
                   (''start'', VNumber (Fin 1)),
                   (''end'', VNumber (Fin 50)),
                   (''extension'', VString ''jpeg''),
                   (''order'', VArray 12 [])]),
             (''customImages'', VArray 13 [])])]"
  by code_simp

lemma lookup_withProperties_Cons:
  "lookup (withProperties base ((k, v) # ps)) k' = lookup (withProperties (setProperty k v base) ps) k'"
  by (simp add: withProperties_def)

lemma lookup_withProperties_Nil: "lookup (withProperties base []) k = lookup base k"
  by (simp add: withProperties_def)

lemmas lookup_withProperties =
  lookup_withProperties_Cons lookup_withProperties_Nil lookup_setProperty

lemma merged_guarded:
  "atPath (mergedObject s n) [''promotions'', ''items''] = guardedField Array_isArray s [''promotions'', ''items'']"
  "atPath (mergedObject s n) [''gallery'', ''featuredNails'', ''imageUrls'']
     = guardedField Array_isArray s [''gallery'', ''featuredNails'', ''imageUrls'']"
  "atPath (mergedObject s n) [''gallery'', ''numbered'', ''order'']
     = guardedField Array_isArray s [''gallery'', ''numbered'', ''order'']"
  "atPath (mergedObject s n) [''gallery'', ''customImages'']
     = guardedField Array_isArray s [''gallery'', ''customImages'']"
  "atPath (mergedObject s n) [''gallery'', ''assetVersion'']
     = guardedField typeof_number s [''gallery'', ''assetVersion'']"
  by (simp_all add: atPath_def incoming_def guardedField_def mergedObject_def Let_def
      lookup_withProperties)

lemma mutate_fresh:
  "a \<notin> addrs v \<Longrightarrow> mutate a f v = v"
  "a \<notin> addrsElements vs \<Longrightarrow> mutateElements a f vs = vs"
  "a \<notin> addrsFields fs \<Longrightarrow> mutateFields a f fs = fs"
  by (induction a f v and a f vs and a f fs rule: mutate_mutateElements_mutateFields.induct) auto

lemma addrsFields_setProperty: "addrsFields (setProperty k v fs) \<subseteq> addrs v \<union> addrsFields fs"
proof (induction fs)
  case Nil
  show ?case by simp
next
  case (Cons p fs)
  obtain k' v' where p: "p = (k', v')" by (cases p)
  show ?case using Cons unfolding p by (cases "k' = k") auto
qed

lemma alloc_fresh:
  "n \<le> snd (alloc j n) \<and> addrs (fst (alloc j n)) \<subseteq> {n..<snd (alloc j n)}"
  "n \<le> snd (allocElements js n) \<and> addrsElements (fst (allocElements js n)) \<subseteq> {n..<snd (allocElements js n)}"
  "n \<le> snd (allocFields kjs acc n)
     \<and> addrsFields (fst (allocFields kjs acc n)) \<subseteq> addrsFields acc \<union> {n..<snd (allocFields kjs acc n)}"
proof (induction j n and js n and kjs acc n rule: alloc_allocElements_allocFields.induct)
  case (5 js n)
  obtain vs n' where a: "allocElements js (Suc n) = (vs, n')" by fastforce
  with 5 show ?case by auto
next
  case (6 kjs n)
  obtain fs n' where a: "allocFields kjs [] (Suc n) = (fs, n')" by fastforce
  with 6 show ?case by auto
next
  case (8 j js n)
  obtain v n1 where a: "alloc j n = (v, n1)" by fastforce
  obtain vs n2 where b: "allocElements js n1 = (vs, n2)" by fastforce
  from 8(1) a have 1: "n \<le> n1" "addrs v \<subseteq> {n..<n1}" by auto
  from 8(2) [OF refl a [symmetric]] b have 2: "n1 \<le> n2" "addrsElements vs \<subseteq> {n1..<n2}" by auto
  from 1 2 show ?case by (auto simp: a b)
next
  case (10 k j kjs acc n)
  obtain v n1 where a: "alloc j n = (v, n1)" by fastforce
  obtain fs n2 where b: "allocFields kjs (setProperty k v acc) n1 = (fs, n2)" by fastforce
  from 10(1) a have 1: "n \<le> n1" "addrs v \<subseteq> {n..<n1}" by auto
  from 10(2) [OF refl a [symmetric]] b
  have 2: "n1 \<le> n2" "addrsFields fs \<subseteq> addrsFields (setProperty k v acc) \<union> {n1..<n2}" by auto
  have 3: "addrsFields (setProperty k v acc) \<subseteq> addrs v \<union> addrsFields acc"
    by (rule addrsFields_setProperty)
  have "addrsFields fs \<subseteq> addrsFields acc \<union> {n..<n2}"
  proof
    fix x assume "x \<in> addrsFields fs"
    with 2(2) 3 have "x \<in> addrs v \<or> x \<in> addrsFields acc \<or> x \<in> {n1..<n2}" by blast
    with 1 2(1) show "x \<in> addrsFields acc \<union> {n..<n2}" by fastforce
  qed
  with 1(1) 2(1) show ?case by (simp add: a b)
qed auto

lemma stringify_DEFAULT: "JSON_stringify DEFAULT_OBJECT = Some (settingsDoc DEFAULT_SITE_SETTINGS)"
  by code_simp

lemma deepClone_DEFAULT:
  "deepClone DEFAULT_OBJECT n = Some (alloc (settingsDoc DEFAULT_SITE_SETTINGS) n)"
  by (simp add: deepClone_def stringify_DEFAULT)

lemmas doc_defs =
  settingsDoc_def contactDoc_def socialsDoc_def mediaDoc_def promotionsDoc_def galleryDoc_def
  featuredNailsDoc_def featuredVideoDoc_def numberedDoc_def stringsDoc_def numberDoc_def
  fitDoc_def modeDoc_def DEFAULT_SITE_SETTINGS_def

lemma stringify_clone:
  "JSON_stringify (fst (alloc (settingsDoc DEFAULT_SITE_SETTINGS) n)) = Some (settingsDoc DEFAULT_SITE_SETTINGS)"
  by (simp add: doc_defs)

lemma complete_clone:
  "completeFor (settingsDoc DEFAULT_SITE_SETTINGS) (fst (alloc (settingsDoc DEFAULT_SITE_SETTINGS) n))"
  by (simp add: doc_defs)

lemma present_simps:
  "present [] k = False"
  "present ((k', v) # fs) k = (k = k' \<or> present fs k)"
  "present (setProperty k' v fs) k = (k = k' \<or> present fs k)"
  by (auto simp: present_def map_of_setProperty)

lemma present_withProperties:
  "present (withProperties fs ((k', v) # ps)) k = present (withProperties (setProperty k' v fs) ps) k"
  "present (withProperties fs []) k = present fs k"
  by (simp_all add: present_def withProperties_def)

lemma present_spread: "present fs k \<Longrightarrow> present (spreadOrEmpty fs v) k"
  unfolding present_def by (rule present_spreadOrEmpty)

lemma case_present:
  "(case map_of fs k of None \<Rightarrow> False | Some x \<Rightarrow> completeFor JNull x) = present fs k"
  "(case map_of fs k of None \<Rightarrow> False | Some x \<Rightarrow> completeFor (JBool b) x) = present fs k"
  "(case map_of fs k of None \<Rightarrow> False | Some x \<Rightarrow> completeFor (JNumber q) x) = present fs k"
  "(case map_of fs k of None \<Rightarrow> False | Some x \<Rightarrow> completeFor (JString t) x) = present fs k"
  "(case map_of fs k of None \<Rightarrow> False | Some x \<Rightarrow> completeFor (JArray js) x) = present fs k"
  by (cases "map_of fs k"; simp add: present_def)+

lemma map_of_withProperties:
  "map_of (withProperties base ((k, v) # ps)) k' = map_of (withProperties (setProperty k v base) ps) k'"
  "map_of (withProperties base []) k = map_of base k"
  by (simp_all add: withProperties_def)

lemma complete_merged:
  "completeFor (settingsDoc DEFAULT_SITE_SETTINGS) (mergedObject s n)"
  by (simp add: doc_defs mergedObject_def Let_def DEFAULT_OBJECT_eq ownEntries_def
      map_of_withProperties map_of_setProperty case_present present_simps present_withProperties
      present_spread)

lemma merge_email:
  "JSON_stringify (mergedObject (VObject a [(''contact'', VObject b [(''email'', VString e)])]) n)
     = Some (settingsDoc (DEFAULT_SITE_SETTINGS
         \<lparr>contact := (contact DEFAULT_SITE_SETTINGS)\<lparr>email := e\<rparr>\<rparr>))"
  by (simp add: doc_defs mergedObject_def Let_def DEFAULT_OBJECT_eq ownEntries_def
      optMember_def member_def spreadOrEmpty_def spread_def nullish_def withProperties_def
      Array_isArray_def typeof_number_def orDefault_def)

lemma optMember_undefined: "optMember VUndefined k = VUndefined"
  by (simp add: optMember_def member_def)

lemma merge_absent_section:
  assumes "k \<in> set sections" and "nullish (optMember s k)"
  shows "JSON_stringify (theMember (mergedObject s n) k) = JSON_stringify (theMember DEFAULT_OBJECT k)"
proof -
  have u: "optMember (optMember s k) k' = VUndefined" for k'
    using assms(2) by (rule optMember_nullish)
  from assms(1) consider "k = ''contact''" | "k = ''socials''" | "k = ''media''"
    | "k = ''promotions''" | "k = ''gallery''"
    by (auto simp: sections_def)
  then show ?thesis
  proof cases
    case 1
    with assms(2) show ?thesis
      by (simp add: mergedObject_def Let_def spreadOrEmpty_nullish DEFAULT_OBJECT_eq ownEntries_def)
  next
    case 2
    with assms(2) show ?thesis
      by (simp add: mergedObject_def Let_def spreadOrEmpty_nullish DEFAULT_OBJECT_eq ownEntries_def)
  next
    case 3
    with assms(2) show ?thesis
      by (simp add: mergedObject_def Let_def spreadOrEmpty_nullish DEFAULT_OBJECT_eq ownEntries_def)
  next
    case 4
    with assms(2) u show ?thesis
      by (simp add: mergedObject_def Let_def spreadOrEmpty_nullish DEFAULT_OBJECT_eq ownEntries_def
          withProperties_def Array_isArray_def)
  next
    case 5
    with assms(2) u show ?thesis
      by (simp add: mergedObject_def Let_def spreadOrEmpty_nullish DEFAULT_OBJECT_eq ownEntries_def
          withProperties_def Array_isArray_def typeof_number_def orDefault_def nullish_def
          spreadOrEmpty_def optMember_undefined)
  qed
qed

text \<open>
  C3. Merging the document \<^verbatim>\<open>{ contact: { email: e } }\<close> yields a document that
  \<^verbatim>\<open>JSON.stringify\<close> writes as the defaults with \<open>e\<close> for \<^verbatim>\<open>contact.email\<close>: every other field
  is the compiled-in default. In general, for a truthy incoming value, a section that is
  absent from it (or \<^verbatim>\<open>null\<close>) is written in the result as it is in the defaults; for a
  falsy incoming value the result is written as the defaults.
\<close>

theorem merge_heals_from_defaults:
  "(\<exists>r. mergeSettings (fst (alloc (emailDocument e) n)) (snd (alloc (emailDocument e) n)) = Some (r, n + 11)
        \<and> JSON_stringify r
            = Some (settingsDoc (DEFAULT_SITE_SETTINGS
                \<lparr>contact := (contact DEFAULT_SITE_SETTINGS)\<lparr>email := e\<rparr>\<rparr>)))
   \<and> (truthy s \<and> k \<in> set sections \<and> nullish (optMember s k) \<longrightarrow>
        (\<exists>r n'. mergeSettings s n = Some (r, n')
           \<and> JSON_stringify (theMember r k) = JSON_stringify (theMember DEFAULT_OBJECT k)))
   \<and> (\<not> truthy s \<longrightarrow>
        (\<exists>r n'. mergeSettings s n = Some (r, n')
           \<and> JSON_stringify r = Some (settingsDoc DEFAULT_SITE_SETTINGS)))
   \<and> JSON_stringify DEFAULT_OBJECT = Some (settingsDoc DEFAULT_SITE_SETTINGS)"
proof -
  have a: "alloc (emailDocument e) n
             = (VObject n [(''contact'', VObject (Suc n) [(''email'', VString e)])], n + 2)"
    by (simp add: emailDocument_def)
  have "truthy (VObject n [(''contact'', VObject (Suc n) [(''email'', VString e)])])"
    by (simp add: truthy_def)
  from mergeSettings_truthy [OF this, of "n + 2"]
  have 1: "\<exists>r. mergeSettings (fst (alloc (emailDocument e) n)) (snd (alloc (emailDocument e) n)) = Some (r, n + 11)
        \<and> JSON_stringify r
            = Some (settingsDoc (DEFAULT_SITE_SETTINGS
                \<lparr>contact := (contact DEFAULT_SITE_SETTINGS)\<lparr>email := e\<rparr>\<rparr>))"
    by (simp add: a merge_email)
  have 2: "\<exists>r n'. mergeSettings s n = Some (r, n')
           \<and> JSON_stringify (theMember r k) = JSON_stringify (theMember DEFAULT_OBJECT k)"
    if "truthy s" "k \<in> set sections" "nullish (optMember s k)"
    using mergeSettings_truthy [OF that(1), of n] merge_absent_section [OF that(2,3), of n] by simp
  have 3: "\<exists>r n'. mergeSettings s n = Some (r, n')
           \<and> JSON_stringify r = Some (settingsDoc DEFAULT_SITE_SETTINGS)"
    if "\<not> truthy s"
  proof -
    have "mergeSettings s n = Some (fst (alloc (settingsDoc DEFAULT_SITE_SETTINGS) n),
                                    snd (alloc (settingsDoc DEFAULT_SITE_SETTINGS) n))"
      using that by (simp add: mergeSettings_def deepClone_DEFAULT)
    then show ?thesis using stringify_clone [of n] by blast
  qed
  show ?thesis using 1 2 3 stringify_DEFAULT by blast
qed

text \<open>
  C4, at the input where the code departs from it. The merge does not check the shape of
  \<^verbatim>\<open>contact.addressLines\<close>: for the document \<^verbatim>\<open>{ contact: { addressLines: "x" } }\<close> the merged
  \<^verbatim>\<open>contact.addressLines\<close> is the string \<^verbatim>\<open>x\<close>, which is not an array, where the default is
  one.
\<close>

theorem merge_keeps_non_array_addressLines:
  "map_option (\<lambda>(r, n'). atPath r [''contact'', ''addressLines''])
     (mergeSettings (fst (alloc addressLinesDocument heapStart)) (snd (alloc addressLinesDocument heapStart)))
     = Some (VString ''x'')
   \<and> \<not> Array_isArray (VString ''x'')
   \<and> Array_isArray (atPath DEFAULT_OBJECT [''contact'', ''addressLines''])"
  by code_simp

text \<open>
  The other four array fields and \<^verbatim>\<open>gallery.assetVersion\<close> are checked: in every result of
  the merge they are arrays and a number, and an incoming value of another shape gives
  way to the default.
\<close>

lemma default_guarded:
  "Array_isArray (atPath DEFAULT_OBJECT [''promotions'', ''items''])"
  "Array_isArray (atPath DEFAULT_OBJECT [''gallery'', ''featuredNails'', ''imageUrls''])"
  "Array_isArray (atPath DEFAULT_OBJECT [''gallery'', ''numbered'', ''order''])"
  "Array_isArray (atPath DEFAULT_OBJECT [''gallery'', ''customImages''])"
  "typeof_number (atPath DEFAULT_OBJECT [''gallery'', ''assetVersion''])"
  "atPath DEFAULT_OBJECT [''gallery'', ''assetVersion''] = VNumber (Fin 1)"
  by (simp_all add: DEFAULT_OBJECT_eq atPath_def Array_isArray_def typeof_number_def)

lemma clone_guarded:
  "Array_isArray (atPath (fst (alloc (settingsDoc DEFAULT_SITE_SETTINGS) n)) [''promotions'', ''items''])"
  "Array_isArray (atPath (fst (alloc (settingsDoc DEFAULT_SITE_SETTINGS) n)) [''gallery'', ''featuredNails'', ''imageUrls''])"
  "Array_isArray (atPath (fst (alloc (settingsDoc DEFAULT_SITE_SETTINGS) n)) [''gallery'', ''numbered'', ''order''])"
  "Array_isArray (atPath (fst (alloc (settingsDoc DEFAULT_SITE_SETTINGS) n)) [''gallery'', ''customImages''])"
  "typeof_number (atPath (fst (alloc (settingsDoc DEFAULT_SITE_SETTINGS) n)) [''gallery'', ''assetVersion''])"
  by (simp_all add: doc_defs atPath_def Array_isArray_def typeof_number_def)

lemma merge_guarded_fields:
  assumes "mergeSettings s n = Some (r, n')"
  shows "Array_isArray (atPath r [''promotions'', ''items''])
       \<and> Array_isArray (atPath r [''gallery'', ''featuredNails'', ''imageUrls''])
       \<and> Array_isArray (atPath r [''gallery'', ''numbered'', ''order''])
       \<and> Array_isArray (atPath r [''gallery'', ''customImages''])
       \<and> typeof_number (atPath r [''gallery'', ''assetVersion''])"
proof (cases "truthy s")
  case True
  with assms have "r = mergedObject s n" by (simp add: mergeSettings_truthy)
  then show ?thesis
    using default_guarded by (simp add: merged_guarded guardedField_def)
next
  case False
  with assms have "r = fst (alloc (settingsDoc DEFAULT_SITE_SETTINGS) n)"
    by (auto simp: mergeSettings_def deepClone_DEFAULT)
  then show ?thesis using clone_guarded by simp
qed

lemma merge_fallback:
  assumes "truthy s"
  shows "mergeSettings s n = Some (mergedObject s n, n + 9)"
    and "\<not> Array_isArray (incoming s [''promotions'', ''items''])
         \<Longrightarrow> atPath (mergedObject s n) [''promotions'', ''items''] = atPath DEFAULT_OBJECT [''promotions'', ''items'']"
    and "\<not> typeof_number (incoming s [''gallery'', ''assetVersion''])
         \<Longrightarrow> atPath (mergedObject s n) [''gallery'', ''assetVersion''] = VNumber (Fin 1)"
  using assms by (simp_all add: mergeSettings_truthy merged_guarded guardedField_def default_guarded)

lemma clone_typed: "isSiteSettings (fst (alloc (settingsDoc DEFAULT_SITE_SETTINGS) n))"
  by (simp add: doc_defs isSiteSettings_def hasShape_def isString_def isBoolean_def isOneOf_def
      isArrayOf_def isPromotion_def typeof_number_def)

text \<open>
  C9, as amended. \<open>loadFromLocalStorage\<close> returns a value for every content of the cache
  and every parser. The value has every field of the settings document; its
  \<^verbatim>\<open>promotions.items\<close>, \<^verbatim>\<open>gallery.featuredNails.imageUrls\<close>, \<^verbatim>\<open>gallery.numbered.order\<close> and
  \<^verbatim>\<open>gallery.customImages\<close> are arrays and its \<^verbatim>\<open>gallery.assetVersion\<close> is a number; the type of
  no other field is checked. When the entry is absent, empty or not JSON, the result is
  the same as for an absent entry; it has the type \<^verbatim>\<open>SiteSettings\<close>, it is written by
  \<^verbatim>\<open>JSON.stringify\<close> as the defaults, and (with the allocator beyond the object of the
  defaults) it shares no array or object with the defaults, so a write to any array or
  object of the result leaves the defaults as they are.
\<close>

theorem load_never_fails:
  "(\<exists>r n'. loadFromLocalStorage parse stored n = Some (r, n')
       \<and> completeFor (settingsDoc DEFAULT_SITE_SETTINGS) r
       \<and> Array_isArray (atPath r [''promotions'', ''items''])
       \<and> Array_isArray (atPath r [''gallery'', ''featuredNails'', ''imageUrls''])
       \<and> Array_isArray (atPath r [''gallery'', ''numbered'', ''order''])
       \<and> Array_isArray (atPath r [''gallery'', ''customImages''])
       \<and> typeof_number (atPath r [''gallery'', ''assetVersion'']))
   \<and> (stored = None \<or> stored = Some [] \<or> (\<exists>raw. stored = Some raw \<and> parse raw = None) \<longrightarrow>
        (\<exists>r n'. loadFromLocalStorage parse stored n = Some (r, n')
           \<and> loadFromLocalStorage parse stored n = loadFromLocalStorage parse None n
           \<and> isSiteSettings r
           \<and> JSON_stringify r = Some (settingsDoc DEFAULT_SITE_SETTINGS)
           \<and> (heapStart \<le> n \<longrightarrow>
                 addrs r \<inter> addrs DEFAULT_OBJECT = {}
                 \<and> (\<forall>a \<in> addrs r. \<forall>f. mutate a f DEFAULT_OBJECT = DEFAULT_OBJECT))))"
proof -
  let ?doc = "settingsDoc DEFAULT_SITE_SETTINGS"
  let ?ok = "\<lambda>r. completeFor ?doc r
       \<and> Array_isArray (atPath r [''promotions'', ''items''])
       \<and> Array_isArray (atPath r [''gallery'', ''featuredNails'', ''imageUrls''])
       \<and> Array_isArray (atPath r [''gallery'', ''numbered'', ''order''])
       \<and> Array_isArray (atPath r [''gallery'', ''customImages''])
       \<and> typeof_number (atPath r [''gallery'', ''assetVersion''])"
  have clone: "deepClone DEFAULT_OBJECT m = Some (fst (alloc ?doc m), snd (alloc ?doc m))" for m
    by (simp add: deepClone_DEFAULT)
  have cloned: "?ok (fst (alloc ?doc m))" for m
    using complete_clone [of m] clone_guarded [of m] by simp
  have merged: "\<exists>r n'. mergeSettings v m = Some (r, n') \<and> ?ok r" for v m
  proof (cases "truthy v")
    case True
    have m: "mergeSettings v m = Some (mergedObject v m, m + 9)"
      by (rule mergeSettings_truthy [OF True])
    from merge_guarded_fields [OF m] complete_merged [of v m] have "?ok (mergedObject v m)" by simp
    with m show ?thesis by blast
  next
    case False
    then have "mergeSettings v m = Some (fst (alloc ?doc m), snd (alloc ?doc m))"
      using clone [of m] by (simp add: mergeSettings_def)
    then show ?thesis using cloned [of m] by blast
  qed
  have total: "\<exists>r n'. loadFromLocalStorage parse stored n = Some (r, n') \<and> ?ok r"
  proof (cases stored)
    case None
    then have "loadFromLocalStorage parse stored n = Some (fst (alloc ?doc n), snd (alloc ?doc n))"
      using clone [of n] by (simp add: loadFromLocalStorage_def)
    then show ?thesis using cloned [of n] by blast
  next
    case (Some raw)
    show ?thesis
    proof (cases "raw = [] \<or> parse raw = None")
      case True
      then have "loadFromLocalStorage parse stored n = Some (fst (alloc ?doc n), snd (alloc ?doc n))"
        using Some clone [of n] by (auto simp: loadFromLocalStorage_def)
      then show ?thesis using cloned [of n] by blast
    next
      case False
      then obtain j where j: "parse raw = Some j" by auto
      obtain v n1 where a: "alloc j n = (v, n1)" by fastforce
      from merged [of v n1] obtain r n' where r: "mergeSettings v n1 = Some (r, n')" "?ok r"
        by blast
      have "loadFromLocalStorage parse stored n = Some (r, n')"
        using Some False j a r(1) by (simp add: loadFromLocalStorage_def)
      with r(2) show ?thesis by blast
    qed
  qed
  have fresh: "addrs (fst (alloc ?doc n)) \<inter> addrs DEFAULT_OBJECT = {}
                 \<and> (\<forall>a \<in> addrs (fst (alloc ?doc n)). \<forall>f. mutate a f DEFAULT_OBJECT = DEFAULT_OBJECT)"
    if "heapStart \<le> n"
  proof -
    have d: "addrs DEFAULT_OBJECT \<subseteq> {0..<heapStart}"
      using alloc_fresh(1) [of 0 ?doc] by (simp add: DEFAULT_OBJECT_def heapStart_def)
    have c: "addrs (fst (alloc ?doc n)) \<subseteq> {n..<snd (alloc ?doc n)}"
      using alloc_fresh(1) [of n ?doc] by simp
    from d c that have disj: "addrs (fst (alloc ?doc n)) \<inter> addrs DEFAULT_OBJECT = {}" by fastforce
    then have "mutate a f DEFAULT_OBJECT = DEFAULT_OBJECT" if "a \<in> addrs (fst (alloc ?doc n))" for a f
      using that by (intro mutate_fresh(1)) blast
    with disj show ?thesis by blast
  qed
  have absent: "\<exists>r n'. loadFromLocalStorage parse stored n = Some (r, n')
           \<and> loadFromLocalStorage parse stored n = loadFromLocalStorage parse None n
           \<and> isSiteSettings r
           \<and> JSON_stringify r = Some ?doc
           \<and> (heapStart \<le> n \<longrightarrow>
                 addrs r \<inter> addrs DEFAULT_OBJECT = {}
                 \<and> (\<forall>a \<in> addrs r. \<forall>f. mutate a f DEFAULT_OBJECT = DEFAULT_OBJECT))"
    if "stored = None \<or> stored = Some [] \<or> (\<exists>raw. stored = Some raw \<and> parse raw = None)"
  proof -
    from that have l: "loadFromLocalStorage parse stored n = Some (fst (alloc ?doc n), snd (alloc ?doc n))"
      using clone [of n] by (auto simp: loadFromLocalStorage_def)
    have l0: "loadFromLocalStorage parse None n = Some (fst (alloc ?doc n), snd (alloc ?doc n))"
      using clone [of n] by (simp add: loadFromLocalStorage_def)
    show ?thesis
    proof (intro exI conjI)
      show "loadFromLocalStorage parse stored n = Some (fst (alloc ?doc n), snd (alloc ?doc n))"
        by (rule l)
      show "loadFromLocalStorage parse stored n = loadFromLocalStorage parse None n"
        by (simp only: l l0)
      show "isSiteSettings (fst (alloc ?doc n))"
        by (rule clone_typed)
      show "JSON_stringify (fst (alloc ?doc n)) = Some ?doc"
        by (rule stringify_clone)
      show "heapStart \<le> n \<longrightarrow>
              addrs (fst (alloc ?doc n)) \<inter> addrs DEFAULT_OBJECT = {}
              \<and> (\<forall>a \<in> addrs (fst (alloc ?doc n)). \<forall>f. mutate a f DEFAULT_OBJECT = DEFAULT_OBJECT)"
        using fresh by blast
    qed
  qed
  show ?thesis using total absent by blast
qed

theorem merge_heals_from_defaults_witness:
  "map_option (\<lambda>(r, n'). JSON_stringify r)
     (mergeSettings (fst (alloc (emailDocument ''a@b.com'') heapStart))
        (snd (alloc (emailDocument ''a@b.com'') heapStart)))
     = Some (Some (settingsDoc (DEFAULT_SITE_SETTINGS
         \<lparr>contact := (contact DEFAULT_SITE_SETTINGS)\<lparr>email := ''a@b.com''\<rparr>\<rparr>)))
   \<and> map_option (\<lambda>(r, n'). JSON_stringify (theMember r ''gallery''))
       (mergeSettings (fst (alloc (emailDocument ''a@b.com'') heapStart)) 16)
     = Some (JSON_stringify (theMember DEFAULT_OBJECT ''gallery''))
   \<and> map_option (\<lambda>(r, n'). JSON_stringify r) (mergeSettings VNull 16)
     = Some (Some (settingsDoc DEFAULT_SITE_SETTINGS))"
proof -
  let ?s = "fst (alloc (emailDocument ''a@b.com'') heapStart)"
  have h: "truthy ?s" "''gallery'' \<in> set sections" "nullish (optMember ?s ''gallery'')" "\<not> truthy VNull"
    by code_simp+
  show ?thesis
    using merge_heals_from_defaults [of "''a@b.com''" heapStart ?s "''gallery''"]
      merge_heals_from_defaults [of "''a@b.com''" 16 ?s "''gallery''"]
      merge_heals_from_defaults [of "''a@b.com''" 16 VNull "''gallery''"] h
    by auto
qed

theorem load_never_fails_witness:
  "map_option (\<lambda>(r, n'). JSON_stringify r) (loadFromLocalStorage parseSample (Some ''{broken'') heapStart)
     = Some (Some (settingsDoc DEFAULT_SITE_SETTINGS))
   \<and> loadFromLocalStorage parseSample (Some ''{broken'') heapStart
     = loadFromLocalStorage parseSample None heapStart
   \<and> map_option (\<lambda>(r, n'). addrs r \<inter> addrs DEFAULT_OBJECT)
       (loadFromLocalStorage parseSample (Some ''{broken'') heapStart) = Some {}
   \<and> map_option (\<lambda>(r, n'). isSiteSettings r)
       (loadFromLocalStorage parseSample (Some ''{broken'') heapStart) = Some True
   \<and> map_option (\<lambda>(r, n'). completeFor (settingsDoc DEFAULT_SITE_SETTINGS) r)
       (loadFromLocalStorage parseSample (Some ''{}'') heapStart) = Some True
   \<and> map_option (\<lambda>(r, n'). Array_isArray (atPath r [''gallery'', ''customImages'']))
       (loadFromLocalStorage parseSample (Some ''{}'') heapStart) = Some True"
proof -
  have p: "parseSample ''{broken'' = None" by code_simp
  show ?thesis
    using load_never_fails [of parseSample "Some ''{broken''" heapStart]
      load_never_fails [of parseSample "Some ''{}''" heapStart] p
    by auto
qed

text \<open>
  A cache whose \<^verbatim>\<open>socials.instagramUrl\<close> is \<^verbatim>\<open>null\<close> and whose \<^verbatim>\<open>gallery.mode\<close> is \<open>5\<close>: the result has
  every field, and it keeps these two values, so it does not have the type \<^verbatim>\<open>SiteSettings\<close>.
\<close>

theorem load_untyped_counterexample:
  "parseSample untypedText = Some untypedDocument
   \<and> map_option (\<lambda>(r, n'). atPath r [''socials'', ''instagramUrl''])
       (loadFromLocalStorage parseSample (Some untypedText) heapStart) = Some VNull
   \<and> map_option (\<lambda>(r, n'). atPath r [''gallery'', ''mode''])
       (loadFromLocalStorage parseSample (Some untypedText) heapStart) = Some (VNumber (Fin 5))
   \<and> map_option (\<lambda>(r, n'). completeFor (settingsDoc DEFAULT_SITE_SETTINGS) r)
       (loadFromLocalStorage parseSample (Some untypedText) heapStart) = Some True
   \<and> map_option (\<lambda>(r, n'). isSiteSettings r)
       (loadFromLocalStorage parseSample (Some untypedText) heapStart) = Some False
   \<and> isSiteSettings DEFAULT_OBJECT"
  by code_simp

end
